theory Spec2Isabelle
  imports Main "HOL-Library.Sublist" "HOL-Library.Word"
begin

section \<open>Python strings\<close>

text \<open>
  A Python \<open>str\<close> is a sequence of code points. Names are modelled as \<^typ>\<open>string\<close>
  with one \<^typ>\<open>char\<close> per code point, so the model covers the code points
  U+0000 .. U+00FF. The tables below are those of \<open>str.isalnum\<close>, \<open>str.isspace\<close>
  and \<open>str.lower\<close> on that range.
\<close>

definition code :: "char \<Rightarrow> nat" where
  "code c = of_char c"

text \<open>\<open>c.isalnum()\<close>: the digits, the letters, and in the upper half the
  characters U+00AA, U+00B2, U+00B3, U+00B5, U+00B9, U+00BA, U+00BC .. U+00BE and the
  letters U+00C0 .. U+00FF without the two operators U+00D7 and U+00F7.\<close>

definition isalnum :: "char \<Rightarrow> bool" where
  "isalnum c = (let n = code c in
     (48 \<le> n \<and> n \<le> 57) \<or> (65 \<le> n \<and> n \<le> 90) \<or> (97 \<le> n \<and> n \<le> 122) \<or>
     n = 170 \<or> n = 178 \<or> n = 179 \<or> n = 181 \<or> n = 185 \<or> n = 186 \<or>
     (188 \<le> n \<and> n \<le> 190) \<or> (192 \<le> n \<and> n \<le> 214) \<or>
     (216 \<le> n \<and> n \<le> 246) \<or> (248 \<le> n \<and> n \<le> 255))"

text \<open>\<open>c.isspace()\<close>, the characters \<open>str.strip()\<close> removes.\<close>

definition isspace :: "char \<Rightarrow> bool" where
  "isspace c = (let n = code c in
     (9 \<le> n \<and> n \<le> 13) \<or> (28 \<le> n \<and> n \<le> 32) \<or> n = 133 \<or> n = 160)"

definition strip :: "string \<Rightarrow> string" where
  "strip s = rev (dropWhile isspace (rev (dropWhile isspace s)))"

definition lower_char :: "char \<Rightarrow> char" where
  "lower_char c = (let n = code c in
     if (65 \<le> n \<and> n \<le> 90) \<or> (192 \<le> n \<and> n \<le> 214) \<or> (216 \<le> n \<and> n \<le> 222)
     then char_of (n + 32) else c)"

definition lower :: "string \<Rightarrow> string" where
  "lower s = map lower_char s"

text \<open>\<open>str(n)\<close> for an integer, as an f-string formats it.\<close>

function str_nat :: "nat \<Rightarrow> string" where
  "str_nat n =
     (if n < 10 then [char_of (48 + n)]
      else str_nat (n div 10) @ [char_of (48 + n mod 10)])"
  by pat_completeness auto
termination
  by (relation "measure id") auto

declare str_nat.simps [simp del]

definition str_int :: "int \<Rightarrow> string" where
  "str_int i = (if i < 0 then CHR ''-'' # str_nat (nat (- i)) else str_nat (nat i))"

section \<open>Names\<close>

text \<open>
  The three extraction loops compute the file name of an object the same way
  (\<open>convert.py\<close>, lines 65 to 70, 112 to 117 and 153 to 158):
  \<^verbatim>\<open>
  mesh_name = data.name if hasattr(data, 'name') and data.name else f"mesh_{obj.path_id}"
  mesh_name_clean = "".join(c for c in mesh_name
                            if c.isalnum() or c in (' ', '-', '_')).strip()
  if not mesh_name_clean:
      mesh_name_clean = f"mesh_{obj.path_id}"
  \<close>
  The attribute \<open>data.name\<close> is \<open>None\<close> below when it is absent (or is \<open>None\<close>).
\<close>

definition keep_char :: "char \<Rightarrow> bool" where
  "keep_char c = (isalnum c \<or> c \<in> set [CHR '' '', CHR ''-'', CHR ''_''])"

definition sanitize :: "string \<Rightarrow> string \<Rightarrow> string" where
  "sanitize name fallback =
     (let name_clean = strip (filter keep_char name)
      in if name_clean = [] then fallback else name_clean)"

definition resolve_name :: "string option \<Rightarrow> string \<Rightarrow> string" where
  "resolve_name name_attr fallback =
     (case name_attr of
        None \<Rightarrow> fallback
      | Some n \<Rightarrow> if n \<noteq> [] then n else fallback)"

definition mesh_fallback :: "int \<Rightarrow> string" where
  "mesh_fallback path_id = ''mesh_'' @ str_int path_id"

definition texture_fallback :: "int \<Rightarrow> string" where
  "texture_fallback path_id = ''texture_'' @ str_int path_id"

definition sprite_fallback :: "int \<Rightarrow> string" where
  "sprite_fallback path_id = ''sprite_'' @ str_int path_id"

definition mesh_name :: "string option \<Rightarrow> int \<Rightarrow> string" where
  "mesh_name name_attr path_id = resolve_name name_attr (mesh_fallback path_id)"

definition mesh_name_clean :: "string option \<Rightarrow> int \<Rightarrow> string" where
  "mesh_name_clean name_attr path_id =
     sanitize (mesh_name name_attr path_id) (mesh_fallback path_id)"

definition tex_name :: "string option \<Rightarrow> int \<Rightarrow> string" where
  "tex_name name_attr path_id = resolve_name name_attr (texture_fallback path_id)"

definition tex_name_clean :: "string option \<Rightarrow> int \<Rightarrow> string" where
  "tex_name_clean name_attr path_id =
     sanitize (tex_name name_attr path_id) (texture_fallback path_id)"

definition sprite_name :: "string option \<Rightarrow> int \<Rightarrow> string" where
  "sprite_name name_attr path_id = resolve_name name_attr (sprite_fallback path_id)"

definition sprite_name_clean :: "string option \<Rightarrow> int \<Rightarrow> string" where
  "sprite_name_clean name_attr path_id =
     sanitize (sprite_name name_attr path_id) (sprite_fallback path_id)"

text \<open>The specification's wording of the fallback: the lower-cased type name, an
  underscore, the identity handle.\<close>

definition spec_synthesized_name :: "string \<Rightarrow> int \<Rightarrow> string" where
  "spec_synthesized_name type_name handle = lower type_name @ ''_'' @ str_int handle"

section \<open>The classifier\<close>

text \<open>\<open>categorize_mesh\<close> (lines 197 to 210); \<open>k in name_lower\<close> is
  \<^const>\<open>sublist\<close>, \<open>any\<close> is \<^const>\<open>list_ex\<close>.\<close>

definition hilt_keywords :: "string list" where
  "hilt_keywords = [''hilt'', ''handle'', ''grip'', ''guard'', ''pommel'', ''emitter'']"

definition blade_keywords :: "string list" where
  "blade_keywords = [''blade'', ''beam'', ''glow'', ''laser'']"

definition categorize_mesh :: "string \<Rightarrow> string" where
  "categorize_mesh name =
     (let name_lower = lower name in
      if list_ex (\<lambda>k. sublist k name_lower) hilt_keywords then ''hilt''
      else if list_ex (\<lambda>k. sublist k name_lower) blade_keywords then ''blade''
      else ''hilt'')"

section \<open>Bytes, UTF-8 and base64\<close>

type_synonym byte = "8 word"

text \<open>\<open>obj_data.encode('utf-8')\<close> on a string of code points below U+0100: one byte
  below U+0080, two bytes from there on.\<close>

definition utf8_char :: "char \<Rightarrow> byte list" where
  "utf8_char c = (let n = code c in
     if n < 128 then [of_nat n]
     else [of_nat (192 + n div 64), of_nat (128 + n mod 64)])"

definition utf8_encode :: "string \<Rightarrow> byte list" where
  "utf8_encode s = concat (map utf8_char s)"

text \<open>\<open>base64.b64encode(bs).decode('utf-8')\<close>: the standard alphabet, three bytes to
  four characters, the last group padded with \<open>=\<close>.\<close>

definition b64_char :: "nat \<Rightarrow> char" where
  "b64_char i =
     (if i < 26 then char_of (65 + i)
      else if i < 52 then char_of (97 + (i - 26))
      else if i < 62 then char_of (48 + (i - 52))
      else if i = 62 then CHR ''+''
      else CHR ''/'')"

fun b64encode :: "byte list \<Rightarrow> string" where
  "b64encode (a # b # c # rest) =
     (let n = unat a * 65536 + unat b * 256 + unat c
      in [b64_char (n div 262144), b64_char (n div 4096 mod 64),
          b64_char (n div 64 mod 64), b64_char (n mod 64)] @ b64encode rest)"
| "b64encode [a, b] =
     (let n = unat a * 65536 + unat b * 256
      in [b64_char (n div 262144), b64_char (n div 4096 mod 64),
          b64_char (n div 64 mod 64), CHR ''=''])"
| "b64encode [a] =
     (let n = unat a * 65536
      in [b64_char (n div 262144), b64_char (n div 4096 mod 64), CHR ''='', CHR ''=''])"
| "b64encode [] = []"

text \<open>What the claims call valid base64: a decoder for the padded standard alphabet.
  It is the reading side of the format and has no counterpart in \<open>convert.py\<close>.\<close>

definition b64_index :: "char \<Rightarrow> nat option" where
  "b64_index c = (let n = code c in
     if 65 \<le> n \<and> n \<le> 90 then Some (n - 65)
     else if 97 \<le> n \<and> n \<le> 122 then Some (n - 71)
     else if 48 \<le> n \<and> n \<le> 57 then Some (n + 4)
     else if n = 43 then Some 62
     else if n = 47 then Some 63
     else None)"

definition b64_group :: "char \<Rightarrow> char \<Rightarrow> char \<Rightarrow> char \<Rightarrow> byte list option" where
  "b64_group c1 c2 c3 c4 =
     (case (b64_index c1, b64_index c2, b64_index c3, b64_index c4) of
        (Some i1, Some i2, Some i3, Some i4) \<Rightarrow>
          (let n = i1 * 262144 + i2 * 4096 + i3 * 64 + i4
           in Some [of_nat (n div 65536), of_nat (n div 256 mod 256), of_nat (n mod 256)])
      | _ \<Rightarrow> None)"

definition b64_last :: "char \<Rightarrow> char \<Rightarrow> char \<Rightarrow> char \<Rightarrow> byte list option" where
  "b64_last c1 c2 c3 c4 =
     (if c3 = CHR ''='' \<and> c4 = CHR ''='' then
        (case (b64_index c1, b64_index c2) of
           (Some i1, Some i2) \<Rightarrow> Some [of_nat ((i1 * 262144 + i2 * 4096) div 65536)]
         | _ \<Rightarrow> None)
      else if c4 = CHR ''='' then
        (case (b64_index c1, b64_index c2, b64_index c3) of
           (Some i1, Some i2, Some i3) \<Rightarrow>
             (let n = i1 * 262144 + i2 * 4096 + i3 * 64
              in Some [of_nat (n div 65536), of_nat (n div 256 mod 256)])
         | _ \<Rightarrow> None)
      else b64_group c1 c2 c3 c4)"

fun b64decode :: "string \<Rightarrow> byte list option" where
  "b64decode [] = Some []"
| "b64decode [c1, c2, c3, c4] = b64_last c1 c2 c3 c4"
| "b64decode (c1 # c2 # c3 # c4 # rest) =
     (case b64_group c1 c2 c3 c4 of
        None \<Rightarrow> None
      | Some g \<Rightarrow> (case b64decode rest of None \<Rightarrow> None | Some bs \<Rightarrow> Some (g @ bs)))"
| "b64decode _ = None"

section \<open>The objects of a bundle\<close>

text \<open>
  The asset library, the image library and the file system are outside the program.
  What each of their calls answers is an input of the model, recorded with the object
  the call is made for: \<open>obj.read()\<close>, \<open>data.name\<close>, \<open>data.export()\<close>, \<open>data.image\<close>,
  the write of the object's file and the in-memory PNG serialisation. A call that
  raises carries the text of the exception.
\<close>

datatype export_outcome =
    ExportRaises string
  | ExportNone
  | ExportStr string
  | ExportBytes "byte list"

text \<open>An image has one PNG serialisation, \<open>png\<close>: the eight bytes of the PNG
  signature followed by the chunks, so it is never empty. It is what \<open>img.save\<close>
  writes, to a file or into a buffer; \<open>img.save(buffer, format='PNG')\<close> either fills
  the buffer with it or raises.\<close>

record pil_image =
  png_chunks :: "byte list"
  buffer_error :: "string option"

definition png_signature :: "byte list" where
  "png_signature = [137, 80, 78, 71, 13, 10, 26, 10]"

definition png :: "pil_image \<Rightarrow> byte list" where
  "png img = png_signature @ png_chunks img"

datatype image_outcome =
    ImageRaises string
  | Image pil_image

record decoded =
  name_attr :: "string option"
  export :: export_outcome
  image :: image_outcome

datatype read_outcome =
    ReadRaises string
  | ReadOk decoded

text \<open>Writing the object's file (\<open>open(obj_file, 'wb')\<close> and \<open>f.write\<close> for a mesh,
  \<open>img.save(tex_file)\<close> for a texture or a sprite) either stores all the bytes or
  raises; a failed write leaves the path as it was (\<open>None\<close>) or leaves a file with the
  bytes that got through.\<close>

datatype write_outcome =
    Written
  | WriteRaises string "byte list option"

record unity_object =
  type_name :: string
  path_id :: int
  read :: read_outcome
  file_write :: write_outcome

text \<open>The records appended to \<open>mesh_data\<close> and \<open>texture_data\<close>.\<close>

record asset =
  name :: string
  filename :: string
  data :: string
  original_name :: string

text \<open>The state of a run: the files under \<open>output/\<close> by path, the two result lists
  and the \<open>[WARN]\<close> and \<open>[ERROR]\<close> lines printed so far. The \<open>[INFO]\<close> lines are
  left out.\<close>

record state =
  disk :: "string \<rightharpoonup> byte list"
  mesh_data :: "asset list"
  texture_data :: "asset list"
  printed :: "string list"

definition warn :: "string \<Rightarrow> state \<Rightarrow> state" where
  "warn msg s = s\<lparr>printed := printed s @ [''[WARN] '' @ msg]\<rparr>"

definition OUTPUT_GEO :: string where
  "OUTPUT_GEO = ''output/CustomGeometry''"

definition OUTPUT_TEX :: string where
  "OUTPUT_TEX = ''output/CustomTextures''"

definition OUTPUT_PRESETS :: string where
  "OUTPUT_PRESETS = ''output/Presets''"

definition path_join :: "string \<Rightarrow> string \<Rightarrow> string" where
  "path_join dir file = dir @ ''/'' @ file"

definition write_file ::
  "write_outcome \<Rightarrow> string \<Rightarrow> byte list \<Rightarrow> (string \<rightharpoonup> byte list) \<Rightarrow>
   (string \<rightharpoonup> byte list) \<times> string option" where
  "write_file w path bytes d =
     (case w of
        Written \<Rightarrow> (d(path \<mapsto> bytes), None)
      | WriteRaises e None \<Rightarrow> (d, Some e)
      | WriteRaises e (Some partial) \<Rightarrow> (d(path \<mapsto> partial), Some e))"

section \<open>Extraction\<close>

definition quoted :: "string \<Rightarrow> string" where
  "quoted s = [CHR 0x27] @ s @ [CHR 0x27]"

text \<open>Lines 83 to 94: the mesh's file is written, then its record is appended. An
  exception of the write is caught by the inner handler (line 98).\<close>

definition store_mesh :: "unity_object \<Rightarrow> string \<Rightarrow> string \<Rightarrow> byte list \<Rightarrow> state \<Rightarrow> state" where
  "store_mesh obj orig clean obj_bytes s =
     (case write_file (file_write obj) (path_join OUTPUT_GEO (clean @ ''.obj'')) obj_bytes (disk s) of
        (d, Some e) \<Rightarrow>
          warn (''Failed to export mesh '' @ quoted clean @ '': '' @ e) (s\<lparr>disk := d\<rparr>)
      | (d, None) \<Rightarrow>
          s\<lparr>disk := d,
            mesh_data := mesh_data s @
              [\<lparr>name = clean, filename = clean @ ''.obj'',
                data = b64encode obj_bytes, original_name = orig\<rparr>]\<rparr>)"

text \<open>The body of the mesh loop (lines 62 to 101). \<open>if obj_data and len(obj_data) > 0\<close>
  is false for \<open>None\<close>, the empty string and the empty bytes.\<close>

definition process_mesh :: "unity_object \<Rightarrow> state \<Rightarrow> state" where
  "process_mesh obj s =
     (if type_name obj \<noteq> ''Mesh'' then s
      else case read obj of
        ReadRaises e \<Rightarrow> warn (''Failed to process mesh object: '' @ e) s
      | ReadOk dat \<Rightarrow>
          (let orig = mesh_name (name_attr dat) (path_id obj);
               clean = mesh_name_clean (name_attr dat) (path_id obj)
           in case export dat of
                ExportRaises e \<Rightarrow>
                  warn (''Failed to export mesh '' @ quoted clean @ '': '' @ e) s
              | ExportNone \<Rightarrow> warn (''Empty mesh export for: '' @ clean) s
              | ExportStr str \<Rightarrow>
                  if str \<noteq> [] then store_mesh obj orig clean (utf8_encode str) s
                  else warn (''Empty mesh export for: '' @ clean) s
              | ExportBytes bs \<Rightarrow>
                  if bs \<noteq> [] then store_mesh obj orig clean bs s
                  else warn (''Empty mesh export for: '' @ clean) s))"

text \<open>The export block of the texture loop (lines 120 to 141) and of the sprite loop
  (lines 161 to 182), which differ in the word of the warning only: the image is
  saved to its file, then serialised into a buffer, then the record is appended.
  There is no test for an empty payload.\<close>

definition export_image ::
  "string \<Rightarrow> unity_object \<Rightarrow> decoded \<Rightarrow> string \<Rightarrow> string \<Rightarrow> state \<Rightarrow> state" where
  "export_image label obj dat orig clean s =
     (case image dat of
        ImageRaises e \<Rightarrow>
          warn (''Failed to export '' @ label @ '' '' @ quoted clean @ '': '' @ e) s
      | Image img \<Rightarrow>
          (case write_file (file_write obj) (path_join OUTPUT_TEX (clean @ ''.png''))
                  (png img) (disk s) of
             (d, Some e) \<Rightarrow>
               warn (''Failed to export '' @ label @ '' '' @ quoted clean @ '': '' @ e)
                 (s\<lparr>disk := d\<rparr>)
           | (d, None) \<Rightarrow>
               (case buffer_error img of
                  Some e \<Rightarrow>
                    warn (''Failed to export '' @ label @ '' '' @ quoted clean @ '': '' @ e)
                      (s\<lparr>disk := d\<rparr>)
                | None \<Rightarrow>
                    s\<lparr>disk := d,
                      texture_data := texture_data s @
                        [\<lparr>name = clean, filename = clean @ ''.png'',
                          data = b64encode (png img), original_name = orig\<rparr>]\<rparr>)))"

definition process_texture :: "unity_object \<Rightarrow> state \<Rightarrow> state" where
  "process_texture obj s =
     (if type_name obj \<noteq> ''Texture2D'' then s
      else case read obj of
        ReadRaises e \<Rightarrow> warn (''Failed to process texture object: '' @ e) s
      | ReadOk dat \<Rightarrow>
          export_image ''texture'' obj dat
            (tex_name (name_attr dat) (path_id obj))
            (tex_name_clean (name_attr dat) (path_id obj)) s)"

definition process_sprite :: "unity_object \<Rightarrow> state \<Rightarrow> state" where
  "process_sprite obj s =
     (if type_name obj \<noteq> ''Sprite'' then s
      else case read obj of
        ReadRaises e \<Rightarrow> warn (''Failed to process sprite object: '' @ e) s
      | ReadOk dat \<Rightarrow>
          export_image ''sprite'' obj dat
            (sprite_name (name_attr dat) (path_id obj))
            (sprite_name_clean (name_attr dat) (path_id obj)) s)"

text \<open>The three loops over \<open>env.objects\<close>, one after the other.\<close>

definition extract_meshes :: "unity_object list \<Rightarrow> state \<Rightarrow> state" where
  "extract_meshes objs s = fold process_mesh objs s"

definition extract_textures :: "unity_object list \<Rightarrow> state \<Rightarrow> state" where
  "extract_textures objs s = fold process_texture objs s"

definition extract_sprites :: "unity_object list \<Rightarrow> state \<Rightarrow> state" where
  "extract_sprites objs s = fold process_sprite objs s"

definition initial_state :: state where
  "initial_state = \<lparr>disk = Map.empty, mesh_data = [], texture_data = [], printed = []\<rparr>"

definition run_extraction :: "unity_object list \<Rightarrow> state" where
  "run_extraction objs = extract_sprites objs (extract_textures objs (extract_meshes objs initial_state))"

section \<open>The preset\<close>

text \<open>
  The preset is a JSON document built from Python literals. A float literal is kept
  as the decimal text written in \<open>convert.py\<close>; a dict keeps the order of its keys.
\<close>

datatype json =
    JBool bool
  | JInt int
  | JFloat string
  | JStr string
  | JList "json list"
  | JObj "(string \<times> json) list"

definition vec3 :: "string \<Rightarrow> string \<Rightarrow> string \<Rightarrow> json" where
  "vec3 x y z = JObj [(''x'', JFloat x), (''y'', JFloat y), (''z'', JFloat z)]"

definition white :: json where
  "white = JObj [(''r'', JFloat ''1.0''), (''g'', JFloat ''1.0''),
                 (''b'', JFloat ''1.0''), (''a'', JFloat ''1.0'')]"

text \<open>The literals that occur several times in the two module templates.\<close>

definition identity_transform :: json where
  "identity_transform =
     JObj [(''Position'', vec3 ''0.0'' ''0.0'' ''0.0''),
           (''Rotation'', vec3 ''0.0'' ''0.0'' ''0.0''),
           (''Scale'', vec3 ''1.0'' ''1.0'' ''1.0'')]"

definition value_mappings :: json where
  "value_mappings =
     JObj [(''colorOverValue'',
              JObj [(''interpolationType'', JInt 0),
                    (''controlPoints'',
                       JList [JObj [(''time'', JFloat ''0.0''), (''value'', white)]])]),
           (''alphaOverValue'',
              JObj [(''interpolationType'', JInt 0),
                    (''controlPoints'',
                       JList [JObj [(''time'', JFloat ''0.0''), (''value'', JFloat ''1.0'')]])]),
           (''scaleOverValue'',
              JObj [(''interpolationType'', JInt 0),
                    (''controlPoints'',
                       JList [JObj [(''time'', JFloat ''0.0''), (''value'', JFloat ''1.0'')]])]),
           (''valueFrom'', JFloat ''0.0''),
           (''valueTo'', JFloat ''1.0'')]"

definition animation_layout :: json where
  "animation_layout =
     JObj [(''totalFrames'', JInt 1), (''framesPerRow'', JInt 1),
           (''framesPerColumn'', JInt 1), (''frameDuration'', JFloat ''1.0'')]"

definition tiling_layout :: json where
  "tiling_layout =
     JObj [(''x'', JFloat ''1.0''), (''y'', JFloat ''1.0''),
           (''z'', JFloat ''0.0''), (''w'', JFloat ''0.0'')]"

definition uv_scroll :: json where
  "uv_scroll = JObj [(''x'', JFloat ''0.0''), (''y'', JFloat ''0.0'')]"

definition color_override :: json where
  "color_override =
     JObj [(''type'', JInt 0), (''hue'', JFloat ''0.0''), (''saturation'', JFloat ''1.0''),
           (''value'', JFloat ''1.0''), (''hueShiftPerSecond'', JFloat ''0.0''),
           (''fakeGlowMultiplier'', JFloat ''1.0''), (''colorSource'', JInt 0)]"

text \<open>The trail module (lines 236 to 357).\<close>

definition trail_module :: "string \<Rightarrow> json" where
  "trail_module trail_texture =
     JObj [
       (''ModuleId'', JStr ''reezonate.simple-trail''),
       (''Version'', JInt 1),
       (''Config'', JObj [
          (''MeshSettings'', JObj [
             (''TrailLength'', JFloat ''0.3''),
             (''HorizontalResolution'', JInt 4),
             (''VerticalResolution'', JInt 60)]),
          (''MaterialSettings'', JObj [
             (''trailType'', JInt 0),
             (''materialType'', JInt 0),
             (''mappingType'', JInt 0),
             (''offset'', JFloat ''1.0''),
             (''width'', JFloat ''0.03''),
             (''distortionMultiplier'', JFloat ''1.0''),
             (''generalSettings'', JObj [
                (''customTextureId'', JStr trail_texture),
                (''opacityTextureId'', JStr trail_texture),
                (''animationLayout'', animation_layout),
                (''tilingLayout'', tiling_layout),
                (''uvScroll'', uv_scroll),
                (''blendingMode'', JInt 0),
                (''alwaysOnTop'', JBool False),
                (''renderQueue'', JInt 3000)]),
             (''maskSettings'', JObj [
                (''mainMaskResolution'', JInt 128),
                (''driversMaskResolution'', JInt 32),
                (''lengthMappings'', value_mappings),
                (''widthMappings'', value_mappings),
                (''driversSampleMode'', JInt 0),
                (''viewingAngleMappings'', value_mappings),
                (''surfaceAngleMappings'', value_mappings),
                (''drivers'', JList [])])]),
          (''Enabled'', JBool True),
          (''Name'', JStr ''Trail''),
          (''LocalTransform'', identity_transform),
          (''ForceColorOverride'', JBool False),
          (''ColorOverride'', color_override)]),
       (''Children'', JList [])]"

text \<open>The custom-model module of one mesh (lines 361 to 456).\<close>

definition custom_model_module :: "asset \<Rightarrow> json" where
  "custom_model_module mesh =
     JObj [
       (''ModuleId'', JStr ''reezonate.custom-model''),
       (''Version'', JInt 1),
       (''Config'', JObj [
          (''MeshSettings'', JObj [
             (''modelId'', JStr (filename mesh)),
             (''scale'', JFloat ''1.0''),
             (''flipNormals'', JBool False),
             (''mirrorX'', JBool False),
             (''mirrorY'', JBool False),
             (''mirrorZ'', JBool False)]),
          (''MaterialSettings'', JObj [
             (''color'', white),
             (''reflectionColor'', white),
             (''envLightColor'', white),
             (''opacity'', JFloat ''1.0''),
             (''fresnelPower'', JFloat ''5.0''),
             (''metallic'', JFloat ''0.0''),
             (''roughness'', JFloat ''0.0''),
             (''envLightIntensity'', JFloat ''1.0''),
             (''reflectionIntensity'', JFloat ''1.0''),
             (''normalMapIntensity'', JFloat ''1.0''),
             (''sceneReflections'', JBool False),
             (''sceneLights'', JBool False),
             (''renderQueue'', JInt 2990),
             (''cullMode'', JInt 0),
             (''depthWrite'', JBool True),
             (''maskSettings'', JObj [
                (''driversMaskResolution'', JInt 32),
                (''driversSampleMode'', JInt 0),
                (''viewingAngleMappings'', value_mappings),
                (''surfaceAngleMappings'', value_mappings),
                (''drivers'', JList [])])]),
          (''TexturesSettings'', JObj [
             (''animationLayout'', animation_layout),
             (''tilingLayout'', tiling_layout),
             (''uvScroll'', uv_scroll)]),
          (''Enabled'', JBool True),
          (''Name'', JStr ''Custom Model''),
          (''LocalTransform'', identity_transform),
          (''ForceColorOverride'', JBool False),
          (''ColorOverride'', color_override)]),
       (''Children'', JList [])]"

record asset_entry =
  AssetName :: string
  Data :: string

record binary_assets =
  Textures :: "asset_entry list"
  Geometry :: "asset_entry list"

record preset =
  ModVersion :: string
  Version :: int
  RootSettings :: json
  LocalTransform :: json
  Modules :: "json list"
  BinaryAssets :: binary_assets

text \<open>Line 215: the first texture's file name, or the empty string.\<close>

definition trail_texture_of :: "asset list \<Rightarrow> string" where
  "trail_texture_of textures = (case textures of [] \<Rightarrow> [] | t # _ \<Rightarrow> filename t)"

definition empty_preset :: preset where
  "empty_preset =
     \<lparr>ModVersion = ''0.3.17'', Version = 1,
      RootSettings = JObj [(''Type'', JInt 0)],
      LocalTransform = identity_transform,
      Modules = [],
      BinaryAssets = \<lparr>Textures = [], Geometry = []\<rparr>\<rparr>"

text \<open>The body of the loop over \<open>mesh_data\<close> (lines 360 to 466).\<close>

definition add_mesh :: "asset \<Rightarrow> preset \<Rightarrow> preset" where
  "add_mesh mesh p =
     p\<lparr>Modules := Modules p @ [custom_model_module mesh],
       BinaryAssets := (BinaryAssets p)\<lparr>Geometry := Geometry (BinaryAssets p) @
         [\<lparr>AssetName = filename mesh, Data = data mesh\<rparr>]\<rparr>\<rparr>"

text \<open>The body of the loop over \<open>texture_data\<close> (lines 469 to 473).\<close>

definition add_texture :: "asset \<Rightarrow> preset \<Rightarrow> preset" where
  "add_texture texture p =
     p\<lparr>BinaryAssets := (BinaryAssets p)\<lparr>Textures := Textures (BinaryAssets p) @
         [\<lparr>AssetName = filename texture, Data = data texture\<rparr>]\<rparr>\<rparr>"

definition generate_preset :: "asset list \<Rightarrow> asset list \<Rightarrow> preset" where
  "generate_preset meshes textures =
     fold add_texture textures
       (fold add_mesh meshes
          (empty_preset\<lparr>Modules := Modules empty_preset @
             [trail_module (trail_texture_of textures)]\<rparr>))"

text \<open>Reading a module: the value under a key of a dict, the value at the end of a
  path of keys, and every string stored under a given key anywhere in a document.\<close>

fun json_get :: "string \<Rightarrow> json \<Rightarrow> json option" where
  "json_get k (JObj kvs) = map_of kvs k"
| "json_get k _ = None"

fun json_path :: "string list \<Rightarrow> json \<Rightarrow> json option" where
  "json_path [] j = Some j"
| "json_path (k # ks) j = (case json_get k j of None \<Rightarrow> None | Some v \<Rightarrow> json_path ks v)"

fun strings_under :: "string \<Rightarrow> json \<Rightarrow> string list" where
  "strings_under k (JObj kvs) =
     concat (map (\<lambda>kv. (case snd kv of JStr s \<Rightarrow> if fst kv = k then [s] else [] | _ \<Rightarrow> [])
                        @ strings_under k (snd kv)) kvs)"
| "strings_under k (JList js) = concat (map (strings_under k) js)"
| "strings_under k _ = []"

section \<open>The program\<close>

text \<open>
  What a run finds around it: whether the asset library can be imported, whether
  creating the output folders raises (lines 23 and 24), the names of the files
  \<open>input/*.saber\<close> in the order the directory lists them, what \<open>UnityPy.load\<close>
  answers (the exception's text or the objects of the bundle), whether writing the
  preset file raises, and whether the encoding of the standard output has the two
  characters U+2705 and U+2192 of the closing lines (lines 484, 489 and 490). UTF-8 has
  them; cp1252, latin-1 and ascii have not, and \<open>print\<close> then raises
  \<open>UnicodeEncodeError\<close>. All other text the program prints is made of code points
  below U+0100, and the standard output is taken to encode those.
\<close>

record environment =
  unitypy_installed :: bool
  mkdir_error :: "string option"
  saber_files :: "string list"
  load_outcome :: "string + unity_object list"
  preset_write_error :: "string option"
  stdout_encodes_symbols :: bool

record outcome =
  exit_status :: int
  final :: state
  preset_file :: "(string \<times> preset) option"

text \<open>\<open>Path.stem\<close>: the name up to its last dot, when that dot is neither the first
  nor the last character.\<close>

definition stem :: "string \<Rightarrow> string" where
  "stem f =
     (if CHR ''.'' \<in> set f then
        (let i = length f - 1 - length (takeWhile (\<lambda>c. c \<noteq> CHR ''.'') (rev f))
         in if 0 < i \<and> i < length f - 1 then take i f else f)
      else f)"

text \<open>\<open>error(msg)\<close> prints the line and ends the process with status 1.\<close>

definition error :: "string \<Rightarrow> state \<Rightarrow> outcome" where
  "error msg s =
     \<lparr>exit_status = 1, final = s\<lparr>printed := printed s @ [''[ERROR] '' @ msg]\<rparr>,
      preset_file = None\<rparr>"

text \<open>An exception that no handler catches ends the process with status 1; the
  traceback goes to the standard error, which is not part of the state.\<close>

definition uncaught :: "state \<Rightarrow> (string \<times> preset) option \<Rightarrow> outcome" where
  "uncaught s written = \<lparr>exit_status = 1, final = s, preset_file = written\<rparr>"

text \<open>Line 192: the warning when no mesh was extracted.\<close>

definition summary :: "state \<Rightarrow> state" where
  "summary s =
     (if mesh_data s = [] then warn ''Warning: No meshes extracted. Preset will be empty.'' s
      else s)"

definition built_preset :: "unity_object list \<Rightarrow> preset" where
  "built_preset objs =
     generate_preset (mesh_data (run_extraction objs)) (texture_data (run_extraction objs))"

text \<open>The whole script. The preset file is written inside the \<open>try\<close> of line 477;
  the closing lines are printed after it, outside any \<open>try\<close>, and the first of them
  (line 484) carries U+2705.\<close>

definition main :: "environment \<Rightarrow> outcome" where
  "main env =
     (if \<not> unitypy_installed env then
        error ''UnityPy not installed. Run: pip install UnityPy'' initial_state
      else case mkdir_error env of
        Some e \<Rightarrow> uncaught initial_state None
      | None \<Rightarrow>
     (case saber_files env of
        [] \<Rightarrow>
          error ''No .saber file found in input/ folder. Place your .saber file there.''
            initial_state
      | saber_file # _ \<Rightarrow>
          (case load_outcome env of
             Inl e \<Rightarrow> error (''Failed to load .saber file: '' @ e) initial_state
           | Inr objs \<Rightarrow>
               (let s = summary (run_extraction objs);
                    written = (path_join OUTPUT_PRESETS (stem saber_file @ ''.json''),
                               built_preset objs)
                in case preset_write_error env of
                     Some e \<Rightarrow> error (''Failed to write preset: '' @ e) s
                   | None \<Rightarrow>
                       if stdout_encodes_symbols env
                       then \<lparr>exit_status = 0, final = s, preset_file = Some written\<rparr>
                       else uncaught s (Some written)))))"

section \<open>Notions used in the statements\<close>

text \<open>
  The bytes a mesh object exports, when its read and its export succeed and the
  payload is not empty; the PNG serialisation of a texture or sprite object, when its
  read and its image decoding succeed.
\<close>

definition mesh_payload :: "unity_object \<Rightarrow> byte list option" where
  "mesh_payload obj =
     (case read obj of
        ReadRaises e \<Rightarrow> None
      | ReadOk dat \<Rightarrow>
          (case export dat of
             ExportRaises e \<Rightarrow> None
           | ExportNone \<Rightarrow> None
           | ExportStr str \<Rightarrow> if str \<noteq> [] then Some (utf8_encode str) else None
           | ExportBytes bs \<Rightarrow> if bs \<noteq> [] then Some bs else None))"

definition image_payload :: "unity_object \<Rightarrow> byte list option" where
  "image_payload obj =
     (case read obj of
        ReadRaises e \<Rightarrow> None
      | ReadOk dat \<Rightarrow> (case image dat of ImageRaises e \<Rightarrow> None | Image img \<Rightarrow> Some (png img)))"

text \<open>An export succeeds when, in addition, nothing raises on the way to the record:
  the write of the file and, for an image, the serialisation into the buffer.\<close>

definition mesh_export_ok :: "unity_object \<Rightarrow> bool" where
  "mesh_export_ok obj = (mesh_payload obj \<noteq> None \<and> file_write obj = Written)"

definition image_export_ok :: "unity_object \<Rightarrow> bool" where
  "image_export_ok obj =
     (case read obj of
        ReadRaises e \<Rightarrow> False
      | ReadOk dat \<Rightarrow>
          (case image dat of
             ImageRaises e \<Rightarrow> False
           | Image img \<Rightarrow> file_write obj = Written \<and> buffer_error img = None))"

text \<open>The file each loop writes for an object, when it gets as far as writing.\<close>

definition mesh_file :: "unity_object \<Rightarrow> string option" where
  "mesh_file obj =
     (if type_name obj \<noteq> ''Mesh'' \<or> mesh_payload obj = None then None
      else case read obj of
        ReadRaises e \<Rightarrow> None
      | ReadOk dat \<Rightarrow>
          Some (path_join OUTPUT_GEO (mesh_name_clean (name_attr dat) (path_id obj) @ ''.obj'')))"

definition texture_file :: "unity_object \<Rightarrow> string option" where
  "texture_file obj =
     (if type_name obj \<noteq> ''Texture2D'' \<or> image_payload obj = None then None
      else case read obj of
        ReadRaises e \<Rightarrow> None
      | ReadOk dat \<Rightarrow>
          Some (path_join OUTPUT_TEX (tex_name_clean (name_attr dat) (path_id obj) @ ''.png'')))"

definition sprite_file :: "unity_object \<Rightarrow> string option" where
  "sprite_file obj =
     (if type_name obj \<noteq> ''Sprite'' \<or> image_payload obj = None then None
      else case read obj of
        ReadRaises e \<Rightarrow> None
      | ReadOk dat \<Rightarrow>
          Some (path_join OUTPUT_TEX (sprite_name_clean (name_attr dat) (path_id obj) @ ''.png'')))"

definition write_attempts :: "unity_object list \<Rightarrow> string list" where
  "write_attempts objs =
     List.map_filter mesh_file objs @ List.map_filter texture_file objs @
     List.map_filter sprite_file objs"

text \<open>The records one object contributes, by the loop body run on its own.\<close>

definition mesh_assets_of :: "unity_object \<Rightarrow> asset list" where
  "mesh_assets_of obj = mesh_data (process_mesh obj initial_state)"

definition texture_assets_of :: "unity_object \<Rightarrow> asset list" where
  "texture_assets_of obj = texture_data (process_texture obj initial_state)"

definition sprite_assets_of :: "unity_object \<Rightarrow> asset list" where
  "sprite_assets_of obj = texture_data (process_sprite obj initial_state)"

text \<open>The invariant of the passes: the data of every record decodes to the bytes of
  the record's file, and that file is not among the files still to be written.\<close>

definition files_match :: "state \<Rightarrow> string set \<Rightarrow> bool" where
  "files_match s later =
     ((\<forall>a \<in> set (mesh_data s).
         (\<exists>bs. b64decode (data a) = Some bs \<and>
               disk s (path_join OUTPUT_GEO (filename a)) = Some bs) \<and>
         path_join OUTPUT_GEO (filename a) \<notin> later) \<and>
      (\<forall>a \<in> set (texture_data s).
         (\<exists>bs. b64decode (data a) = Some bs \<and>
               disk s (path_join OUTPUT_TEX (filename a)) = Some bs) \<and>
         path_join OUTPUT_TEX (filename a) \<notin> later))"

section \<open>Properties of the name functions\<close>

lemma isalnum_not_isspace: "isalnum c \<Longrightarrow> \<not> isspace c"
  by (auto simp: isalnum_def isspace_def Let_def)

lemma isspace_simps: "isspace CHR '' ''" "\<not> isspace CHR ''-''" "\<not> isspace CHR ''_''"
  by (simp_all add: isspace_def code_def)

lemma not_isalnum_space: "\<not> isalnum CHR '' ''"
  by (simp add: isalnum_def code_def)

lemma keep_space_iff: "keep_char c \<Longrightarrow> isspace c \<longleftrightarrow> c = CHR '' ''"
  using isalnum_not_isspace[of c] isspace_simps not_isalnum_space
  by (auto simp: keep_char_def)

lemma takeWhile_replicate:
  assumes "\<And>c. c \<in> set ys \<Longrightarrow> P c \<Longrightarrow> c = a"
  shows "takeWhile P ys = replicate (length (takeWhile P ys)) a"
proof -
  have "\<forall>c \<in> set (takeWhile P ys). c = a"
    using assms by (metis set_takeWhileD)
  then show ?thesis
    by (simp add: replicate_length_same)
qed

lemma strip_decompose:
  assumes "\<And>c. c \<in> set ys \<Longrightarrow> isspace c \<Longrightarrow> c = a"
  shows "\<exists>n m. ys = replicate n a @ strip ys @ replicate m a"
proof -
  define zs where "zs = dropWhile isspace ys"
  have 1: "ys = takeWhile isspace ys @ zs"
    by (simp add: zs_def)
  have 2: "takeWhile isspace ys = replicate (length (takeWhile isspace ys)) a"
    using assms by (rule takeWhile_replicate)
  have "set zs \<subseteq> set ys"
    by (metis 1 set_append Un_upper2)
  then have r: "\<And>c. c \<in> set (rev zs) \<Longrightarrow> isspace c \<Longrightarrow> c = a"
    using assms by auto
  have 3: "takeWhile isspace (rev zs) = replicate (length (takeWhile isspace (rev zs))) a"
    using r by (rule takeWhile_replicate)
  have "rev zs = takeWhile isspace (rev zs) @ dropWhile isspace (rev zs)"
    by simp
  then have "zs = rev (dropWhile isspace (rev zs)) @ rev (takeWhile isspace (rev zs))"
    by (metis rev_append rev_rev_ident)
  then have 4: "zs = strip ys @ rev (takeWhile isspace (rev zs))"
    by (simp add: strip_def zs_def)
  have 5: "rev (takeWhile isspace (rev zs)) = replicate (length (takeWhile isspace (rev zs))) a"
    using 3 by (metis rev_replicate)
  show ?thesis
    using 1 2 4 5 by metis
qed

lemma set_strip_subset: "set (strip ys) \<subseteq> set ys"
proof -
  have "set (dropWhile isspace (rev (dropWhile isspace ys))) \<subseteq> set (rev (dropWhile isspace ys))"
    by (auto dest: set_dropWhileD)
  also have "\<dots> \<subseteq> set ys"
    by (auto dest: set_dropWhileD)
  finally show ?thesis by (simp add: strip_def)
qed

lemma strip_last: "strip ys \<noteq> [] \<Longrightarrow> \<not> isspace (last (strip ys))"
  unfolding strip_def by (simp add: last_rev hd_dropWhile)

lemma dropWhile_strip: "dropWhile isspace (strip ys) = strip ys"
proof (cases "strip ys = []")
  case True
  then show ?thesis by simp
next
  case False
  define zs where "zs = dropWhile isspace ys"
  have s: "strip ys = rev (dropWhile isspace (rev zs))"
    by (simp add: strip_def zs_def)
  have "rev zs = takeWhile isspace (rev zs) @ dropWhile isspace (rev zs)"
    by simp
  then have "zs = rev (dropWhile isspace (rev zs)) @ rev (takeWhile isspace (rev zs))"
    by (metis rev_append rev_rev_ident)
  then have z: "zs = strip ys @ rev (takeWhile isspace (rev zs))"
    using s by simp
  from False z have "zs \<noteq> []" by auto
  then have "\<not> isspace (hd zs)"
    unfolding zs_def by (rule hd_dropWhile)
  moreover have "hd zs = hd (strip ys)"
    using False z by (metis hd_append2)
  ultimately have "\<not> isspace (hd (strip ys))" by simp
  with False show ?thesis
    by (cases "strip ys") auto
qed

lemma strip_hd: "strip ys \<noteq> [] \<Longrightarrow> \<not> isspace (hd (strip ys))"
  by (metis dropWhile_strip hd_dropWhile)

lemma strip_strip: "strip (strip ys) = strip ys"
proof -
  have "dropWhile isspace (rev (strip ys)) = rev (strip ys)"
    by (simp add: strip_def dropWhile_idem)
  then show ?thesis
    by (simp add: strip_def[of "strip ys"] dropWhile_strip)
qed

lemma strip_eq_Nil_iff: "strip ys = [] \<longleftrightarrow> (\<forall>c \<in> set ys. isspace c)"
proof
  assume "strip ys = []"
  then have "dropWhile isspace (rev (dropWhile isspace ys)) = []"
    by (simp add: strip_def)
  then have "\<forall>c \<in> set (dropWhile isspace ys). isspace c"
    by (simp add: dropWhile_eq_Nil_conv)
  moreover have "\<forall>c \<in> set (takeWhile isspace ys). isspace c"
    by (auto dest: set_takeWhileD)
  moreover have "set ys = set (takeWhile isspace ys) \<union> set (dropWhile isspace ys)"
    by (metis set_append takeWhile_dropWhile_id)
  ultimately show "\<forall>c \<in> set ys. isspace c" by auto
next
  assume "\<forall>c \<in> set ys. isspace c"
  then show "strip ys = []"
    by (auto simp: strip_def dest: set_dropWhileD)
qed

lemma keep_char_iff:
  "keep_char c \<longleftrightarrow> isalnum c \<or> c = CHR '' '' \<or> c = CHR ''-'' \<or> c = CHR ''_''"
  by (auto simp: keep_char_def)

lemma kept_strip_Nil_iff:
  "strip (filter keep_char x) = [] \<longleftrightarrow> (\<forall>c \<in> set x. keep_char c \<longrightarrow> c = CHR '' '')"
  using keep_space_iff by (auto simp: strip_eq_Nil_iff)

lemma kept_decompose:
  "\<exists>n m. filter keep_char x =
     replicate n CHR '' '' @ strip (filter keep_char x) @ replicate m CHR '' ''"
proof (rule strip_decompose)
  fix c
  assume "c \<in> set (filter keep_char x)" and "isspace c"
  then show "c = CHR '' ''"
    using keep_space_iff by auto
qed

text \<open>
  Claim C3. The cleaned name consists of the kept characters of the input (the
  alphanumeric ones, space, hyphen and underscore) in their order, without the spaces
  at both ends: it does not begin or end with whitespace. When no kept character other
  than a space exists, the result is the fallback.
\<close>

theorem sanitize_keeps_and_strips:
  "(\<forall>c. keep_char c \<longleftrightarrow> isalnum c \<or> c = CHR '' '' \<or> c = CHR ''-'' \<or> c = CHR ''_'') \<and>
   ((\<forall>c \<in> set x. keep_char c \<longrightarrow> c = CHR '' '') \<longrightarrow> sanitize x f = f) \<and>
   (\<not> (\<forall>c \<in> set x. keep_char c \<longrightarrow> c = CHR '' '') \<longrightarrow>
      (\<exists>n m. filter keep_char x =
         replicate n CHR '' '' @ sanitize x f @ replicate m CHR '' '') \<and>
      sanitize x f \<noteq> [] \<and>
      \<not> isspace (hd (sanitize x f)) \<and> \<not> isspace (last (sanitize x f)) \<and>
      (\<forall>c \<in> set (sanitize x f). c \<in> set x \<and> keep_char c))"
proof (intro conjI impI allI)
  fix c
  show "keep_char c \<longleftrightarrow> isalnum c \<or> c = CHR '' '' \<or> c = CHR ''-'' \<or> c = CHR ''_''"
    by (rule keep_char_iff)
next
  assume "\<forall>c \<in> set x. keep_char c \<longrightarrow> c = CHR '' ''"
  then have "strip (filter keep_char x) = []"
    by (simp add: kept_strip_Nil_iff)
  then show "sanitize x f = f"
    by (simp add: sanitize_def)
next
  assume "\<not> (\<forall>c \<in> set x. keep_char c \<longrightarrow> c = CHR '' '')"
  then have ne: "strip (filter keep_char x) \<noteq> []"
    by (simp add: kept_strip_Nil_iff)
  then have eq: "sanitize x f = strip (filter keep_char x)"
    by (simp add: sanitize_def)
  show "\<exists>n m. filter keep_char x =
         replicate n CHR '' '' @ sanitize x f @ replicate m CHR '' ''"
    unfolding eq by (rule kept_decompose)
  show "sanitize x f \<noteq> []"
    using ne eq by simp
  show "\<not> isspace (hd (sanitize x f))"
    unfolding eq using ne by (rule strip_hd)
  show "\<not> isspace (last (sanitize x f))"
    unfolding eq using ne by (rule strip_last)
  show "\<forall>c \<in> set (sanitize x f). c \<in> set x \<and> keep_char c"
    unfolding eq using set_strip_subset[of "filter keep_char x"] by auto
qed

theorem sanitize_keeps_and_strips_witness:
  "sanitize ''###'' ''mesh_42'' = ''mesh_42'' \<and>
   sanitize ''  Hilt_Base #1!  '' ''mesh_42'' \<noteq> [] \<and>
   \<not> isspace (hd (sanitize ''  Hilt_Base #1!  '' ''mesh_42'')) \<and>
   \<not> isspace (last (sanitize ''  Hilt_Base #1!  '' ''mesh_42'')) \<and>
   sanitize ''  Hilt_Base #1!  '' ''mesh_42'' = ''Hilt_Base 1''"
proof -
  have a: "\<forall>c \<in> set ''###''. keep_char c \<longrightarrow> c = CHR '' ''"
    by code_simp
  have b: "\<not> (\<forall>c \<in> set ''  Hilt_Base #1!  ''. keep_char c \<longrightarrow> c = CHR '' '')"
    by code_simp
  have c: "sanitize ''  Hilt_Base #1!  '' ''mesh_42'' = ''Hilt_Base 1''"
    by code_simp
  from a sanitize_keeps_and_strips[of "''###''" "''mesh_42''"]
  have 1: "sanitize ''###'' ''mesh_42'' = ''mesh_42''" by blast
  from b sanitize_keeps_and_strips[of "''  Hilt_Base #1!  ''" "''mesh_42''"]
  have 2: "sanitize ''  Hilt_Base #1!  '' ''mesh_42'' \<noteq> [] \<and>
   \<not> isspace (hd (sanitize ''  Hilt_Base #1!  '' ''mesh_42'')) \<and>
   \<not> isspace (last (sanitize ''  Hilt_Base #1!  '' ''mesh_42''))" by blast
  from 1 2 c show ?thesis by blast
qed

lemma sanitize_fixed:
  assumes "\<forall>c \<in> set r. keep_char c" and "r \<noteq> []"
    and "\<not> isspace (hd r)" and "\<not> isspace (last r)"
  shows "sanitize r f = r"
proof -
  have f: "filter keep_char r = r"
    using assms(1) by simp
  have d: "dropWhile isspace r = r"
    using assms(2,3) by (cases r) auto
  have "rev r \<noteq> []" "\<not> isspace (hd (rev r))"
    using assms(2,4) by (simp_all add: hd_rev)
  then have "dropWhile isspace (rev r) = rev r"
    by (cases "rev r") auto
  then have "strip r = r"
    by (simp add: strip_def d)
  then show ?thesis
    using assms(2) by (simp add: sanitize_def f)
qed

lemma sanitize_idem_general:
  assumes "sanitize f f = f"
  shows "sanitize (sanitize x f) f = sanitize x f"
proof (cases "\<forall>c \<in> set x. keep_char c \<longrightarrow> c = CHR '' ''")
  case True
  then have "sanitize x f = f"
    by (simp add: sanitize_def kept_strip_Nil_iff)
  then show ?thesis using assms by simp
next
  case False
  then have ne: "strip (filter keep_char x) \<noteq> []"
    by (simp add: kept_strip_Nil_iff)
  then have eq: "sanitize x f = strip (filter keep_char x)"
    by (simp add: sanitize_def)
  have "\<forall>c \<in> set (strip (filter keep_char x)). keep_char c"
    using set_strip_subset[of "filter keep_char x"] by auto
  then have "sanitize (strip (filter keep_char x)) f = strip (filter keep_char x)"
    using ne strip_hd[OF ne] strip_last[OF ne] by (rule sanitize_fixed)
  then show ?thesis by (simp add: eq)
qed

lemma isalnum_digit: "(d::nat) < 10 \<Longrightarrow> isalnum (char_of (48 + d))"
  by (simp add: isalnum_def code_def)

lemma digit_not_space: "(d::nat) < 10 \<Longrightarrow> \<not> isspace (char_of (48 + d))"
  by (rule isalnum_not_isspace) (rule isalnum_digit)

lemma str_nat_props:
  "str_nat n \<noteq> [] \<and> (\<forall>c \<in> set (str_nat n). isalnum c)"
proof (induction n rule: str_nat.induct)
  case (1 n)
  show ?case
  proof (cases "n < 10")
    case True
    then show ?thesis
      by (subst (1 2) str_nat.simps) (simp add: isalnum_digit)
  next
    case False
    then show ?thesis
      using 1 by (subst (1 2) str_nat.simps) (simp add: isalnum_digit)
  qed
qed

lemma str_int_props:
  "str_int i \<noteq> [] \<and> (\<forall>c \<in> set (str_int i). keep_char c) \<and> \<not> isspace (last (str_int i))"
proof -
  have l: "\<not> isspace (last (str_nat n))" for n
    using str_nat_props[of n] isalnum_not_isspace by (metis last_in_set)
  show ?thesis
    using str_nat_props l by (auto simp: str_int_def keep_char_def)
qed

lemma sanitize_prefixed:
  assumes "p \<noteq> []" "\<forall>c \<in> set p. keep_char c" "\<not> isspace (hd p)"
  shows "sanitize (p @ str_int i) f = p @ str_int i"
proof (rule sanitize_fixed)
  show "\<forall>c \<in> set (p @ str_int i). keep_char c"
    using assms(2) str_int_props[of i] by auto
  show "p @ str_int i \<noteq> []"
    using assms(1) by simp
  show "\<not> isspace (hd (p @ str_int i))"
    using assms(1,3) by simp
  show "\<not> isspace (last (p @ str_int i))"
    using str_int_props[of i] by simp
qed

lemma sanitize_mesh_fallback: "sanitize (mesh_fallback i) f = mesh_fallback i"
  unfolding mesh_fallback_def
  by (rule sanitize_prefixed) (simp_all add: keep_char_def isalnum_def isspace_def code_def)

lemma sanitize_texture_fallback: "sanitize (texture_fallback i) f = texture_fallback i"
  unfolding texture_fallback_def
  by (rule sanitize_prefixed) (simp_all add: keep_char_def isalnum_def isspace_def code_def)

lemma sanitize_sprite_fallback: "sanitize (sprite_fallback i) f = sprite_fallback i"
  unfolding sprite_fallback_def
  by (rule sanitize_prefixed) (simp_all add: keep_char_def isalnum_def isspace_def code_def)

lemma sanitize_nonempty: "f \<noteq> [] \<Longrightarrow> sanitize x f \<noteq> []"
  by (simp add: sanitize_def Let_def)

lemma clean_of_clean:
  assumes "sanitize f f = f" "f \<noteq> []"
  shows "sanitize (resolve_name (Some (sanitize (resolve_name attr f) f)) f) f =
         sanitize (resolve_name attr f) f"
proof -
  have "sanitize (resolve_name attr f) f \<noteq> []"
    using assms(2) by (rule sanitize_nonempty)
  then have "resolve_name (Some (sanitize (resolve_name attr f) f)) f =
             sanitize (resolve_name attr f) f"
    by (simp add: resolve_name_def)
  then show ?thesis
    using sanitize_idem_general[OF assms(1)] by simp
qed

text \<open>
  Claim C9. The fallback of every cleaning the program does is the name it
  synthesizes: \<open>mesh_\<close>, \<open>texture_\<close> or \<open>sprite_\<close> followed by the path id. With each
  of them, cleaning a cleaned name again gives the same name, for every input and
  every path id; so does running the name resolution and cleaning of a loop on its own
  result.
\<close>

theorem sanitize_idempotent:
  "sanitize (sanitize x (mesh_fallback pid)) (mesh_fallback pid) =
     sanitize x (mesh_fallback pid) \<and>
   sanitize (sanitize x (texture_fallback pid)) (texture_fallback pid) =
     sanitize x (texture_fallback pid) \<and>
   sanitize (sanitize x (sprite_fallback pid)) (sprite_fallback pid) =
     sanitize x (sprite_fallback pid) \<and>
   mesh_name_clean (Some (mesh_name_clean attr pid)) pid = mesh_name_clean attr pid \<and>
   tex_name_clean (Some (tex_name_clean attr pid)) pid = tex_name_clean attr pid \<and>
   sprite_name_clean (Some (sprite_name_clean attr pid)) pid = sprite_name_clean attr pid"
proof (intro conjI)
  show "sanitize (sanitize x (mesh_fallback pid)) (mesh_fallback pid) =
     sanitize x (mesh_fallback pid)"
    by (rule sanitize_idem_general) (rule sanitize_mesh_fallback)
  show "sanitize (sanitize x (texture_fallback pid)) (texture_fallback pid) =
     sanitize x (texture_fallback pid)"
    by (rule sanitize_idem_general) (rule sanitize_texture_fallback)
  show "sanitize (sanitize x (sprite_fallback pid)) (sprite_fallback pid) =
     sanitize x (sprite_fallback pid)"
    by (rule sanitize_idem_general) (rule sanitize_sprite_fallback)
  show "mesh_name_clean (Some (mesh_name_clean attr pid)) pid = mesh_name_clean attr pid"
    unfolding mesh_name_clean_def mesh_name_def
    by (rule clean_of_clean) (rule sanitize_mesh_fallback, simp add: mesh_fallback_def)
  show "tex_name_clean (Some (tex_name_clean attr pid)) pid = tex_name_clean attr pid"
    unfolding tex_name_clean_def tex_name_def
    by (rule clean_of_clean) (rule sanitize_texture_fallback, simp add: texture_fallback_def)
  show "sprite_name_clean (Some (sprite_name_clean attr pid)) pid = sprite_name_clean attr pid"
    unfolding sprite_name_clean_def sprite_name_def
    by (rule clean_of_clean) (rule sanitize_sprite_fallback, simp add: sprite_fallback_def)
qed

section \<open>Properties of the classifier\<close>

lemma lower_append: "lower (a @ b) = lower a @ lower b"
  by (simp add: lower_def)

lemma categorize_mesh_cases:
  "categorize_mesh nm =
     (if \<exists>k \<in> set hilt_keywords. sublist k (lower nm) then ''hilt''
      else if \<exists>k \<in> set blade_keywords. sublist k (lower nm) then ''blade''
      else ''hilt'')"
  by (simp add: categorize_mesh_def Let_def list_ex_iff)

text \<open>
  Claim C8. \<open>categorize_mesh\<close> lower-cases the name and answers \<open>hilt\<close> when a hilt
  keyword occurs in it, otherwise \<open>blade\<close> when a blade keyword occurs, otherwise
  \<open>hilt\<close>. A name containing \<open>hilt\<close> in any letter case is a hilt; a name with a blade
  keyword and no hilt keyword is a blade; the empty name and a name with no keyword
  are hilts; there is no other answer.
\<close>

theorem categorize_mesh_spec:
  "categorize_mesh nm =
     (if \<exists>k \<in> set [''hilt'', ''handle'', ''grip'', ''guard'', ''pommel'', ''emitter''].
           sublist k (lower nm) then ''hilt''
      else if \<exists>k \<in> set [''blade'', ''beam'', ''glow'', ''laser'']. sublist k (lower nm)
      then ''blade''
      else ''hilt'') \<and>
   ((\<exists>p h s. nm = p @ h @ s \<and> lower h = ''hilt'') \<longrightarrow> categorize_mesh nm = ''hilt'') \<and>
   ((\<exists>k \<in> set [''blade'', ''beam'', ''glow'', ''laser'']. sublist k (lower nm)) \<and>
    (\<forall>k \<in> set [''hilt'', ''handle'', ''grip'', ''guard'', ''pommel'', ''emitter''].
        \<not> sublist k (lower nm)) \<longrightarrow> categorize_mesh nm = ''blade'') \<and>
   ((\<forall>k \<in> set [''hilt'', ''handle'', ''grip'', ''guard'', ''pommel'', ''emitter'',
                 ''blade'', ''beam'', ''glow'', ''laser'']. \<not> sublist k (lower nm)) \<longrightarrow>
      categorize_mesh nm = ''hilt'') \<and>
   categorize_mesh [] = ''hilt'' \<and>
   (categorize_mesh nm = ''hilt'' \<or> categorize_mesh nm = ''blade'')"
proof -
  have c: "categorize_mesh nm =
     (if \<exists>k \<in> set [''hilt'', ''handle'', ''grip'', ''guard'', ''pommel'', ''emitter''].
           sublist k (lower nm) then ''hilt''
      else if \<exists>k \<in> set [''blade'', ''beam'', ''glow'', ''laser'']. sublist k (lower nm)
      then ''blade''
      else ''hilt'')"
    using categorize_mesh_cases[of nm]
    unfolding hilt_keywords_def blade_keywords_def .
  have h: "categorize_mesh nm = ''hilt''"
    if "\<exists>p h s. nm = p @ h @ s \<and> lower h = ''hilt''"
  proof -
    from that obtain p h s where "nm = p @ h @ s" "lower h = ''hilt''"
      by blast
    then have "lower nm = lower p @ ''hilt'' @ lower s"
      by (simp add: lower_append)
    then have "sublist ''hilt'' (lower nm)"
      unfolding sublist_def by blast
    then show ?thesis
      by (simp add: categorize_mesh_cases hilt_keywords_def)
  qed
  have e: "categorize_mesh [] = ''hilt''"
    by (simp add: categorize_mesh_cases hilt_keywords_def blade_keywords_def lower_def)
  show ?thesis
  proof (intro conjI impI)
    show "categorize_mesh nm =
     (if \<exists>k \<in> set [''hilt'', ''handle'', ''grip'', ''guard'', ''pommel'', ''emitter''].
           sublist k (lower nm) then ''hilt''
      else if \<exists>k \<in> set [''blade'', ''beam'', ''glow'', ''laser'']. sublist k (lower nm)
      then ''blade''
      else ''hilt'')"
      by (rule c)
    show "categorize_mesh nm = ''hilt''"
      if "\<exists>p h s. nm = p @ h @ s \<and> lower h = ''hilt''"
      using that by (rule h)
    show "categorize_mesh nm = ''blade''"
      if "(\<exists>k \<in> set [''blade'', ''beam'', ''glow'', ''laser'']. sublist k (lower nm)) \<and>
    (\<forall>k \<in> set [''hilt'', ''handle'', ''grip'', ''guard'', ''pommel'', ''emitter''].
        \<not> sublist k (lower nm))"
      using that by (subst c) auto
    show "categorize_mesh nm = ''hilt''"
      if "\<forall>k \<in> set [''hilt'', ''handle'', ''grip'', ''guard'', ''pommel'', ''emitter'',
                 ''blade'', ''beam'', ''glow'', ''laser'']. \<not> sublist k (lower nm)"
      using that by (subst c) auto
    show "categorize_mesh [] = ''hilt''"
      by (rule e)
    show "categorize_mesh nm = ''hilt'' \<or> categorize_mesh nm = ''blade''"
      by (subst (1 2) c) simp
  qed
qed

theorem categorize_mesh_spec_witness:
  "categorize_mesh ''My HILT v2'' = ''hilt'' \<and>
   categorize_mesh ''Blade_Glow'' = ''blade'' \<and>
   categorize_mesh ''Cube.001'' = ''hilt'' \<and>
   categorize_mesh ''Blade Guard'' = ''hilt''"
proof -
  have 1: "\<exists>p h s. ''My HILT v2'' = p @ h @ s \<and> lower h = ''hilt''"
  proof (intro exI conjI)
    show "''My HILT v2'' = ''My '' @ ''HILT'' @ '' v2''" by simp
    show "lower ''HILT'' = ''hilt''" by code_simp
  qed
  have 2: "(\<exists>k \<in> set [''blade'', ''beam'', ''glow'', ''laser'']. sublist k (lower ''Blade_Glow'')) \<and>
    (\<forall>k \<in> set [''hilt'', ''handle'', ''grip'', ''guard'', ''pommel'', ''emitter''].
        \<not> sublist k (lower ''Blade_Glow''))"
    by code_simp
  have 3: "\<forall>k \<in> set [''hilt'', ''handle'', ''grip'', ''guard'', ''pommel'', ''emitter'',
                 ''blade'', ''beam'', ''glow'', ''laser'']. \<not> sublist k (lower ''Cube.001'')"
    by code_simp
  have 4: "categorize_mesh ''Blade Guard'' = ''hilt''"
    by code_simp
  from 1 categorize_mesh_spec[of "''My HILT v2''"]
  have a: "categorize_mesh ''My HILT v2'' = ''hilt''" by blast
  from 2 categorize_mesh_spec[of "''Blade_Glow''"]
  have b: "categorize_mesh ''Blade_Glow'' = ''blade''" by blast
  from 3 categorize_mesh_spec[of "''Cube.001''"]
  have c: "categorize_mesh ''Cube.001'' = ''hilt''" by blast
  from a b c 4 show ?thesis by blast
qed

section \<open>Base64 decodes what it encodes\<close>

lemma b64_index_char: "i < 64 \<Longrightarrow> b64_index (b64_char i) = Some i"
  by (auto simp: b64_index_def b64_char_def code_def Let_def)

lemma b64_char_not_pad: "i < 64 \<Longrightarrow> b64_char i \<noteq> CHR ''=''"
proof
  assume "i < 64" and "b64_char i = CHR ''=''"
  then have "b64_index (b64_char i) = b64_index CHR ''=''" by simp
  then show False
    using \<open>i < 64\<close> by (simp add: b64_index_char) (simp add: b64_index_def code_def)
qed

lemma byte_lt: "unat (a :: byte) < 256"
  using unsigned_less[of a, where ?'a = nat] by simp

lemma b64decode_group:
  assumes "c3 \<noteq> CHR ''=''" "c4 \<noteq> CHR ''=''"
  shows "b64decode (c1 # c2 # c3 # c4 # rest) =
     (case b64_group c1 c2 c3 c4 of
        None \<Rightarrow> None
      | Some g \<Rightarrow> (case b64decode rest of None \<Rightarrow> None | Some bs \<Rightarrow> Some (g @ bs)))"
  using assms by (cases rest) (simp_all add: b64_last_def split: option.splits)

lemma split3:
  fixes x y z :: nat
  assumes "y < 256" "z < 256"
  shows "(x * 65536 + y * 256 + z) div 65536 = x"
    and "(x * 65536 + y * 256 + z) div 256 mod 256 = y"
    and "(x * 65536 + y * 256 + z) mod 256 = z"
proof -
  have e: "x * 65536 + y * 256 + z = (x * 256 + y) * 256 + z"
    by simp
  have "((x * 256 + y) * 256 + z) div 256 = x * 256 + y + z div 256"
    by (rule div_mult_self3) simp
  then have d: "(x * 65536 + y * 256 + z) div 256 = x * 256 + y"
    using assms(2) by (simp only: e div_less add_0_right)
  show "(x * 65536 + y * 256 + z) div 256 mod 256 = y"
    unfolding d using assms(1) by simp
  have "((x * 256 + y) * 256 + z) mod 256 = z mod 256"
    by (rule mod_mult_self3)
  then show "(x * 65536 + y * 256 + z) mod 256 = z"
    using assms(2) by (simp only: e mod_less)
  have "(x * 65536 + y * 256 + z) div 65536 = (x * 65536 + y * 256 + z) div 256 div 256"
    by (simp add: div_mult2_eq[symmetric])
  then show "(x * 65536 + y * 256 + z) div 65536 = x"
    unfolding d using assms(1) by simp
qed

lemma group3:
  fixes a b c :: byte
  defines "n \<equiv> unat a * 65536 + unat b * 256 + unat c"
  shows "b64_group (b64_char (n div 262144)) (b64_char (n div 4096 mod 64))
           (b64_char (n div 64 mod 64)) (b64_char (n mod 64)) = Some [a, b, c]"
proof -
  have lt: "n < 16777216"
    using byte_lt[of a] byte_lt[of b] byte_lt[of c] by (simp add: n_def)
  have i1: "n div 262144 < 64"
    using lt by simp
  have r1: "n div 64 * 64 + n mod 64 = n"
    by simp
  have d2: "n div 4096 = n div 64 div 64"
    by (simp add: div_mult2_eq[symmetric])
  have d3: "n div 262144 = n div 4096 div 64"
    by (simp add: div_mult2_eq[symmetric])
  have r2: "n div 4096 * 64 + n div 64 mod 64 = n div 64"
    unfolding d2 by simp
  have r3: "n div 262144 * 64 + n div 4096 mod 64 = n div 4096"
    unfolding d3 by simp
  have re: "n div 262144 * 262144 + n div 4096 mod 64 * 4096 + n div 64 mod 64 * 64 + n mod 64 = n"
    using r1 r2 r3 by linarith
  have a: "n div 65536 = unat a"
    unfolding n_def using byte_lt[of b] byte_lt[of c] by (rule split3)
  have b: "n div 256 mod 256 = unat b"
    unfolding n_def using byte_lt[of b] byte_lt[of c] by (rule split3)
  have c: "n mod 256 = unat c"
    unfolding n_def using byte_lt[of b] byte_lt[of c] by (rule split3)
  show ?thesis
    using i1 by (simp add: b64_group_def b64_index_char re a b c)
qed


lemma regroup:
  fixes n :: nat
  shows "n div 262144 * 262144 + n div 4096 mod 64 * 4096 + n div 64 mod 64 * 64 + n mod 64 = n"
proof -
  have r1: "n div 64 * 64 + n mod 64 = n"
    by simp
  have d2: "n div 4096 = n div 64 div 64"
    by (simp add: div_mult2_eq[symmetric])
  have d3: "n div 262144 = n div 4096 div 64"
    by (simp add: div_mult2_eq[symmetric])
  have r2: "n div 4096 * 64 + n div 64 mod 64 = n div 64"
    unfolding d2 by simp
  have r3: "n div 262144 * 64 + n div 4096 mod 64 = n div 4096"
    unfolding d3 by simp
  show ?thesis
    using r1 r2 r3 by linarith
qed

lemma last2:
  fixes a b :: byte
  defines "n \<equiv> unat a * 65536 + unat b * 256"
  shows "b64_last (b64_char (n div 262144)) (b64_char (n div 4096 mod 64))
           (b64_char (n div 64 mod 64)) CHR ''='' = Some [a, b]"
proof -
  have lt: "n < 16777216"
    using byte_lt[of a] byte_lt[of b] by (simp add: n_def)
  have i1: "n div 262144 < 64"
    using lt by simp
  have "n = (unat a * 1024 + unat b * 4) * 64"
    by (simp add: n_def)
  then have z: "n mod 64 = 0"
    by (simp only: mod_mult_self2_is_0)
  have re: "n div 262144 * 262144 + n div 4096 mod 64 * 4096 + n div 64 mod 64 * 64 = n"
    using regroup[of n] z by simp
  have n0: "n = unat a * 65536 + unat b * 256 + 0"
    by (simp add: n_def)
  have a: "n div 65536 = unat a"
    unfolding n0 using byte_lt[of b] by (rule split3) simp
  have b: "n div 256 mod 256 = unat b"
    unfolding n0 using byte_lt[of b] by (rule split3) simp
  have p: "b64_char (n div 64 mod 64) \<noteq> CHR ''=''"
    by (rule b64_char_not_pad) simp
  show ?thesis
    using i1 p by (simp add: b64_last_def b64_index_char re a b)
qed

lemma last1:
  fixes a :: byte
  defines "n \<equiv> unat a * 65536"
  shows "b64_last (b64_char (n div 262144)) (b64_char (n div 4096 mod 64))
           CHR ''='' CHR ''='' = Some [a]"
proof -
  have lt: "n < 16777216"
    using byte_lt[of a] by (simp add: n_def)
  have i1: "n div 262144 < 64"
    using lt by simp
  have "n = (unat a * 1024) * 64"
    by (simp add: n_def)
  then have z: "n mod 64 = 0"
    by (simp only: mod_mult_self2_is_0)
  have "n div 64 = (unat a * 16) * 64"
    by (simp add: n_def)
  then have z2: "n div 64 mod 64 = 0"
    by (simp only: mod_mult_self2_is_0)
  have re: "n div 262144 * 262144 + n div 4096 mod 64 * 4096 = n"
    using regroup[of n] z z2 by simp
  have a: "n div 65536 = unat a"
    by (simp add: n_def)
  show ?thesis
    using i1 by (simp add: b64_last_def b64_index_char re a)
qed

lemma b64decode_b64encode: "b64decode (b64encode bs) = Some bs"
proof (induction bs rule: b64encode.induct)
  case (1 a b c rest)
  define n where "n = unat a * 65536 + unat b * 256 + unat c"
  have e: "b64encode (a # b # c # rest) =
      b64_char (n div 262144) # b64_char (n div 4096 mod 64) #
      b64_char (n div 64 mod 64) # b64_char (n mod 64) # b64encode rest"
    by (simp add: n_def Let_def)
  have p3: "b64_char (n div 64 mod 64) \<noteq> CHR ''=''"
    by (rule b64_char_not_pad) simp
  have p4: "b64_char (n mod 64) \<noteq> CHR ''=''"
    by (rule b64_char_not_pad) simp
  show ?case
    unfolding e b64decode_group[OF p3 p4]
    using group3[of a b c] 1 by (simp add: n_def)
next
  case (2 a b)
  show ?case
    using last2[of a b] by (simp add: Let_def)
next
  case (3 a)
  show ?case
    using last1[of a] by (simp add: Let_def)
next
  case 4
  show ?case by simp
qed

section \<open>Properties of the preset builder\<close>

lemma fold_add_mesh:
  "Modules (fold add_mesh ms p) = Modules p @ map custom_model_module ms \<and>
   Geometry (BinaryAssets (fold add_mesh ms p)) =
     Geometry (BinaryAssets p) @ map (\<lambda>m. \<lparr>AssetName = filename m, Data = data m\<rparr>) ms \<and>
   Textures (BinaryAssets (fold add_mesh ms p)) = Textures (BinaryAssets p)"
  by (induction ms arbitrary: p) (simp_all add: add_mesh_def)

lemma fold_add_texture:
  "Modules (fold add_texture ts p) = Modules p \<and>
   Geometry (BinaryAssets (fold add_texture ts p)) = Geometry (BinaryAssets p) \<and>
   Textures (BinaryAssets (fold add_texture ts p)) =
     Textures (BinaryAssets p) @ map (\<lambda>t. \<lparr>AssetName = filename t, Data = data t\<rparr>) ts"
  by (induction ts arbitrary: p) (simp_all add: add_texture_def)

lemma generate_preset_Modules:
  "Modules (generate_preset ms ts) = trail_module (trail_texture_of ts) # map custom_model_module ms"
  by (simp add: generate_preset_def fold_add_mesh fold_add_texture empty_preset_def)

lemma generate_preset_Geometry:
  "Geometry (BinaryAssets (generate_preset ms ts)) =
     map (\<lambda>m. \<lparr>AssetName = filename m, Data = data m\<rparr>) ms"
  by (simp add: generate_preset_def fold_add_mesh fold_add_texture empty_preset_def)

lemma generate_preset_Textures:
  "Textures (BinaryAssets (generate_preset ms ts)) =
     map (\<lambda>t. \<lparr>AssetName = filename t, Data = data t\<rparr>) ts"
  by (simp add: generate_preset_def fold_add_mesh fold_add_texture empty_preset_def)

lemma trail_module_id: "json_get ''ModuleId'' (trail_module t) = Some (JStr ''reezonate.simple-trail'')"
  by (simp add: trail_module_def)

lemma custom_model_module_id:
  "json_get ''ModuleId'' (custom_model_module m) = Some (JStr ''reezonate.custom-model'')"
  by (simp add: custom_model_module_def)

lemma custom_model_modelId:
  "json_path [''Config'', ''MeshSettings'', ''modelId''] (custom_model_module m) = Some (JStr (filename m))"
  by (simp add: custom_model_module_def)

lemma trail_texture_ids:
  "json_path [''Config'', ''MaterialSettings'', ''generalSettings'', ''customTextureId'']
     (trail_module t) = Some (JStr t)"
  "json_path [''Config'', ''MaterialSettings'', ''generalSettings'', ''opacityTextureId'']
     (trail_module t) = Some (JStr t)"
  by (simp_all add: trail_module_def)

lemmas literal_defs = vec3_def white_def identity_transform_def value_mappings_def
  animation_layout_def tiling_layout_def uv_scroll_def color_override_def

lemma strings_under_trail:
  "strings_under ''modelId'' (trail_module t) = []"
  "strings_under ''customTextureId'' (trail_module t) = [t]"
  "strings_under ''opacityTextureId'' (trail_module t) = [t]"
  by (simp_all add: trail_module_def literal_defs)

lemma strings_under_custom_model:
  "strings_under ''modelId'' (custom_model_module m) = [filename m]"
  "strings_under ''customTextureId'' (custom_model_module m) = []"
  "strings_under ''opacityTextureId'' (custom_model_module m) = []"
  by (simp_all add: custom_model_module_def literal_defs)

section \<open>One step of the mesh loop\<close>

lemma warn_simps [simp]:
  "disk (warn m s) = disk s" "mesh_data (warn m s) = mesh_data s"
  "texture_data (warn m s) = texture_data s"
  "printed (warn m s) = printed s @ [''[WARN] '' @ m]"
  by (simp_all add: warn_def)

lemma write_file_cases:
  "write_file w p bs d = (d', r) \<Longrightarrow>
     (w = Written \<and> d' = d(p \<mapsto> bs) \<and> r = None) \<or>
     (\<exists>e. r = Some e \<and> (d' = d \<or> (\<exists>part. d' = d(p \<mapsto> part))) \<and> w \<noteq> Written)"
  by (auto simp: write_file_def split: write_outcome.splits option.splits)

text \<open>One mesh step.\<close>

lemma store_mesh_ok:
  "file_write obj = Written \<Longrightarrow>
   store_mesh obj orig clean bs s =
     s\<lparr>disk := (disk s)(path_join OUTPUT_GEO (clean @ ''.obj'') \<mapsto> bs),
       mesh_data := mesh_data s @
         [\<lparr>name = clean, filename = clean @ ''.obj'', data = b64encode bs, original_name = orig\<rparr>]\<rparr>"
  by (simp add: store_mesh_def write_file_def)

lemma store_mesh_fail:
  "file_write obj \<noteq> Written \<Longrightarrow>
   mesh_data (store_mesh obj orig clean bs s) = mesh_data s \<and>
   texture_data (store_mesh obj orig clean bs s) = texture_data s \<and>
   (\<exists>w. printed (store_mesh obj orig clean bs s) = printed s @ [''[WARN] '' @ w]) \<and>
   (\<forall>p. p \<noteq> path_join OUTPUT_GEO (clean @ ''.obj'') \<longrightarrow>
      disk (store_mesh obj orig clean bs s) p = disk s p)"
  by (auto simp: store_mesh_def write_file_def split: write_outcome.splits option.splits)

lemma process_mesh_other:
  "type_name obj \<noteq> ''Mesh'' \<Longrightarrow> process_mesh obj s = s"
  by (simp add: process_mesh_def)

lemma process_mesh_ok:
  assumes "type_name obj = ''Mesh''" "read obj = ReadOk dat" "mesh_payload obj = Some bs"
    "file_write obj = Written"
  shows "process_mesh obj s =
     s\<lparr>disk := (disk s)(path_join OUTPUT_GEO (mesh_name_clean (name_attr dat) (path_id obj) @ ''.obj'') \<mapsto> bs),
       mesh_data := mesh_data s @
         [\<lparr>name = mesh_name_clean (name_attr dat) (path_id obj),
           filename = mesh_name_clean (name_attr dat) (path_id obj) @ ''.obj'',
           data = b64encode bs,
           original_name = mesh_name (name_attr dat) (path_id obj)\<rparr>]\<rparr>"
  using assms
  by (auto simp: process_mesh_def mesh_payload_def store_mesh_ok Let_def
      split: export_outcome.splits if_splits)

lemma process_mesh_nopayload:
  assumes "type_name obj = ''Mesh''" "mesh_payload obj = None"
  shows "\<exists>w. process_mesh obj s = warn w s"
  using assms
  by (auto simp: process_mesh_def mesh_payload_def Let_def
      split: read_outcome.splits export_outcome.splits if_splits)

lemma process_mesh_writefail:
  assumes "type_name obj = ''Mesh''" "read obj = ReadOk dat" "mesh_payload obj = Some bs"
    "file_write obj \<noteq> Written"
  shows "process_mesh obj s =
     store_mesh obj (mesh_name (name_attr dat) (path_id obj))
       (mesh_name_clean (name_attr dat) (path_id obj)) bs s"
  using assms
  by (auto simp: process_mesh_def mesh_payload_def Let_def
      split: export_outcome.splits if_splits)


lemma process_mesh_frame:
  "texture_data (process_mesh obj s) = texture_data s"
proof (cases "type_name obj = ''Mesh''")
  case False
  then show ?thesis by (simp add: process_mesh_other)
next
  case True
  show ?thesis
  proof (cases "mesh_payload obj")
    case None
    with True obtain w where "process_mesh obj s = warn w s"
      using process_mesh_nopayload by blast
    then show ?thesis by simp
  next
    case (Some bs)
    then obtain dat where r: "read obj = ReadOk dat"
      by (auto simp: mesh_payload_def split: read_outcome.splits)
    show ?thesis
    proof (cases "file_write obj = Written")
      case True
      show ?thesis
        using process_mesh_ok[OF \<open>type_name obj = ''Mesh''\<close> r Some True] by simp
    next
      case False
      show ?thesis
        using process_mesh_writefail[OF \<open>type_name obj = ''Mesh''\<close> r Some False]
          store_mesh_fail[OF False] by simp
    qed
  qed
qed

lemma mesh_assets_of_cases:
  "mesh_assets_of obj =
     (if type_name obj = ''Mesh'' \<and> mesh_export_ok obj then
        (case read obj of
           ReadOk dat \<Rightarrow>
             [\<lparr>name = mesh_name_clean (name_attr dat) (path_id obj),
               filename = mesh_name_clean (name_attr dat) (path_id obj) @ ''.obj'',
               data = b64encode (the (mesh_payload obj)),
               original_name = mesh_name (name_attr dat) (path_id obj)\<rparr>]
         | ReadRaises e \<Rightarrow> [])
      else [])"
proof (cases "type_name obj = ''Mesh''")
  case False
  then show ?thesis
    by (simp add: mesh_assets_of_def process_mesh_other initial_state_def)
next
  case True
  show ?thesis
  proof (cases "mesh_payload obj")
    case None
    with True obtain w where "process_mesh obj initial_state = warn w initial_state"
      using process_mesh_nopayload by blast
    then show ?thesis
      using None by (simp add: mesh_assets_of_def mesh_export_ok_def initial_state_def)
  next
    case (Some bs)
    then obtain dat where r: "read obj = ReadOk dat"
      by (auto simp: mesh_payload_def split: read_outcome.splits)
    show ?thesis
    proof (cases "file_write obj = Written")
      case w: True
      show ?thesis
        using process_mesh_ok[OF True r Some w, of initial_state] True Some w r
        by (simp add: mesh_assets_of_def mesh_export_ok_def initial_state_def)
    next
      case w: False
      show ?thesis
        using process_mesh_writefail[OF True r Some w, of initial_state]
          store_mesh_fail[OF w] w
        by (simp add: mesh_assets_of_def mesh_export_ok_def initial_state_def)
    qed
  qed
qed

lemma process_mesh_data:
  "mesh_data (process_mesh obj s) = mesh_data s @ mesh_assets_of obj"
proof (cases "type_name obj = ''Mesh''")
  case False
  then show ?thesis
    by (simp add: mesh_assets_of_cases process_mesh_other)
next
  case True
  show ?thesis
  proof (cases "mesh_payload obj")
    case None
    with True obtain w where "process_mesh obj s = warn w s"
      using process_mesh_nopayload by blast
    then show ?thesis
      using None by (simp add: mesh_assets_of_cases mesh_export_ok_def)
  next
    case (Some bs)
    then obtain dat where r: "read obj = ReadOk dat"
      by (auto simp: mesh_payload_def split: read_outcome.splits)
    show ?thesis
    proof (cases "file_write obj = Written")
      case w: True
      show ?thesis
        using process_mesh_ok[OF True r Some w, of s] True Some w r
        by (simp add: mesh_assets_of_cases mesh_export_ok_def)
    next
      case w: False
      show ?thesis
        using process_mesh_writefail[OF True r Some w, of s]
          store_mesh_fail[OF w] w
        by (simp add: mesh_assets_of_cases mesh_export_ok_def)
    qed
  qed
qed

lemma process_mesh_disk:
  assumes "mesh_file obj \<noteq> Some p"
  shows "disk (process_mesh obj s) p = disk s p"
proof (cases "type_name obj = ''Mesh''")
  case False
  then show ?thesis
    by (simp add: process_mesh_other)
next
  case True
  show ?thesis
  proof (cases "mesh_payload obj")
    case None
    with True obtain w where "process_mesh obj s = warn w s"
      using process_mesh_nopayload by blast
    then show ?thesis by simp
  next
    case (Some bs)
    then obtain dat where r: "read obj = ReadOk dat"
      by (auto simp: mesh_payload_def split: read_outcome.splits)
    have ne: "p \<noteq> path_join OUTPUT_GEO (mesh_name_clean (name_attr dat) (path_id obj) @ ''.obj'')"
      using assms True Some r by (simp add: mesh_file_def)
    show ?thesis
    proof (cases "file_write obj = Written")
      case w: True
      show ?thesis
        using process_mesh_ok[OF True r Some w, of s] ne by simp
    next
      case w: False
      show ?thesis
        using process_mesh_writefail[OF True r Some w, of s]
          store_mesh_fail[OF w] ne by simp
    qed
  qed
qed

section \<open>One step of the texture and sprite loops\<close>

lemma export_image_ok:
  assumes "image dat = Image img" "file_write obj = Written" "buffer_error img = None"
  shows "export_image label obj dat orig clean s =
     s\<lparr>disk := (disk s)(path_join OUTPUT_TEX (clean @ ''.png'') \<mapsto> png img),
       texture_data := texture_data s @
         [\<lparr>name = clean, filename = clean @ ''.png'', data = b64encode (png img),
           original_name = orig\<rparr>]\<rparr>"
  using assms by (simp add: export_image_def write_file_def)

lemma export_image_raises:
  assumes "image dat = ImageRaises e"
  shows "export_image label obj dat orig clean s =
     warn (''Failed to export '' @ label @ '' '' @ quoted clean @ '': '' @ e) s"
  using assms by (simp add: export_image_def)

lemma export_image_fail:
  assumes "image dat = Image img" "\<not> (file_write obj = Written \<and> buffer_error img = None)"
  shows "mesh_data (export_image label obj dat orig clean s) = mesh_data s \<and>
   texture_data (export_image label obj dat orig clean s) = texture_data s \<and>
   (\<exists>w. printed (export_image label obj dat orig clean s) = printed s @ [''[WARN] '' @ w]) \<and>
   (\<forall>p. p \<noteq> path_join OUTPUT_TEX (clean @ ''.png'') \<longrightarrow>
      disk (export_image label obj dat orig clean s) p = disk s p)"
  using assms
  by (auto simp: export_image_def write_file_def split: write_outcome.splits option.splits)

lemma export_image_frame:
  "mesh_data (export_image label obj dat orig clean s) = mesh_data s"
proof (cases "image dat")
  case (ImageRaises e)
  then show ?thesis by (simp add: export_image_raises)
next
  case (Image img)
  show ?thesis
  proof (cases "file_write obj = Written \<and> buffer_error img = None")
    case True
    then show ?thesis using Image by (simp add: export_image_ok)
  next
    case False
    then show ?thesis using export_image_fail[OF Image False] by simp
  qed
qed

text \<open>What the export block does to the pool, the disk and the output, by the notions
  \<open>image_payload\<close> and \<open>image_export_ok\<close> of the object.\<close>

lemma export_image_summary:
  assumes "read obj = ReadOk dat"
  shows "texture_data (export_image label obj dat orig clean s) =
           texture_data s @
           (if image_export_ok obj then
              [\<lparr>name = clean, filename = clean @ ''.png'',
                data = b64encode (the (image_payload obj)), original_name = orig\<rparr>]
            else [])"
    and "image_export_ok obj \<Longrightarrow>
           printed (export_image label obj dat orig clean s) = printed s \<and>
           disk (export_image label obj dat orig clean s) =
             (disk s)(path_join OUTPUT_TEX (clean @ ''.png'') \<mapsto> the (image_payload obj))"
    and "\<not> image_export_ok obj \<Longrightarrow>
           \<exists>w. printed (export_image label obj dat orig clean s) = printed s @ [''[WARN] '' @ w]"
    and "image_payload obj = None \<Longrightarrow> disk (export_image label obj dat orig clean s) = disk s"
    and "p \<noteq> path_join OUTPUT_TEX (clean @ ''.png'') \<Longrightarrow>
           disk (export_image label obj dat orig clean s) p = disk s p"
proof -
  show "texture_data (export_image label obj dat orig clean s) =
           texture_data s @
           (if image_export_ok obj then
              [\<lparr>name = clean, filename = clean @ ''.png'',
                data = b64encode (the (image_payload obj)), original_name = orig\<rparr>]
            else [])"
  proof (cases "image dat")
    case (ImageRaises e)
    then show ?thesis
      using assms by (simp add: export_image_raises image_export_ok_def)
  next
    case (Image img)
    show ?thesis
    proof (cases "file_write obj = Written \<and> buffer_error img = None")
      case True
      then show ?thesis
        using Image assms by (simp add: export_image_ok image_export_ok_def image_payload_def)
    next
      case False
      then show ?thesis
        using export_image_fail[OF Image False] Image assms
        by (auto simp: image_export_ok_def)
    qed
  qed
  show "printed (export_image label obj dat orig clean s) = printed s \<and>
           disk (export_image label obj dat orig clean s) =
             (disk s)(path_join OUTPUT_TEX (clean @ ''.png'') \<mapsto> the (image_payload obj))"
    if "image_export_ok obj"
  proof -
    from that assms obtain img where
      i: "image dat = Image img" "file_write obj = Written" "buffer_error img = None"
      by (auto simp: image_export_ok_def split: image_outcome.splits)
    show ?thesis
      using i assms by (simp add: export_image_ok image_payload_def)
  qed
  show "\<exists>w. printed (export_image label obj dat orig clean s) = printed s @ [''[WARN] '' @ w]"
    if "\<not> image_export_ok obj"
  proof (cases "image dat")
    case (ImageRaises e)
    then show ?thesis by (simp add: export_image_raises)
  next
    case (Image img)
    with that assms have "\<not> (file_write obj = Written \<and> buffer_error img = None)"
      by (simp add: image_export_ok_def)
    from export_image_fail[OF Image this] show ?thesis by blast
  qed
  show "disk (export_image label obj dat orig clean s) = disk s"
    if "image_payload obj = None"
  proof -
    from that assms obtain e where "image dat = ImageRaises e"
      by (auto simp: image_payload_def split: image_outcome.splits)
    then show ?thesis by (simp add: export_image_raises)
  qed
  show "disk (export_image label obj dat orig clean s) p = disk s p"
    if "p \<noteq> path_join OUTPUT_TEX (clean @ ''.png'')"
  proof (cases "image dat")
    case (ImageRaises e)
    then show ?thesis by (simp add: export_image_raises)
  next
    case (Image img)
    show ?thesis
    proof (cases "file_write obj = Written \<and> buffer_error img = None")
      case True
      then show ?thesis using Image that by (simp add: export_image_ok)
    next
      case False
      then show ?thesis using export_image_fail[OF Image False] that by simp
    qed
  qed
qed


text \<open>One step of the texture loop.\<close>

lemma process_texture_other:
  "type_name obj \<noteq> ''Texture2D'' \<Longrightarrow> process_texture obj s = s"
  by (simp add: process_texture_def)

lemma process_texture_read_raises:
  "type_name obj = ''Texture2D'' \<Longrightarrow> read obj = ReadRaises e \<Longrightarrow>
   process_texture obj s = warn (''Failed to process texture object: '' @ e) s"
  by (simp add: process_texture_def)

lemma process_texture_read_ok:
  "type_name obj = ''Texture2D'' \<Longrightarrow> read obj = ReadOk dat \<Longrightarrow>
   process_texture obj s =
     export_image ''texture'' obj dat (tex_name (name_attr dat) (path_id obj))
       (tex_name_clean (name_attr dat) (path_id obj)) s"
  by (simp add: process_texture_def)

lemma process_texture_frame:
  "mesh_data (process_texture obj s) = mesh_data s"
proof (cases "type_name obj = ''Texture2D''")
  case False
  then show ?thesis by (simp add: process_texture_other)
next
  case True
  then show ?thesis
    by (cases "read obj")
      (simp_all add: process_texture_read_raises process_texture_read_ok export_image_frame)
qed

lemma process_texture_pool:
  "texture_data (process_texture obj s) =
     texture_data s @
     (if type_name obj = ''Texture2D'' \<and> image_export_ok obj then
        (case read obj of
           ReadOk dat \<Rightarrow>
             [\<lparr>name = tex_name_clean (name_attr dat) (path_id obj),
               filename = tex_name_clean (name_attr dat) (path_id obj) @ ''.png'',
               data = b64encode (the (image_payload obj)),
               original_name = tex_name (name_attr dat) (path_id obj)\<rparr>]
         | ReadRaises e \<Rightarrow> [])
      else [])"
proof (cases "type_name obj = ''Texture2D''")
  case False
  then show ?thesis by (simp add: process_texture_other)
next
  case True
  show ?thesis
  proof (cases "read obj")
    case (ReadRaises e)
    then show ?thesis
      using True by (simp add: process_texture_read_raises image_export_ok_def)
  next
    case (ReadOk dat)
    then show ?thesis
      using True by (simp add: process_texture_read_ok export_image_summary(1)[OF ReadOk])
  qed
qed

lemma texture_assets_of_cases:
  "texture_assets_of obj =
     (if type_name obj = ''Texture2D'' \<and> image_export_ok obj then
        (case read obj of
           ReadOk dat \<Rightarrow>
             [\<lparr>name = tex_name_clean (name_attr dat) (path_id obj),
               filename = tex_name_clean (name_attr dat) (path_id obj) @ ''.png'',
               data = b64encode (the (image_payload obj)),
               original_name = tex_name (name_attr dat) (path_id obj)\<rparr>]
         | ReadRaises e \<Rightarrow> [])
      else [])"
  unfolding texture_assets_of_def process_texture_pool
  by (simp add: initial_state_def)

lemma process_texture_data:
  "texture_data (process_texture obj s) = texture_data s @ texture_assets_of obj"
  unfolding texture_assets_of_cases by (rule process_texture_pool)

lemma process_texture_disk:
  assumes "texture_file obj \<noteq> Some p"
  shows "disk (process_texture obj s) p = disk s p"
proof (cases "type_name obj = ''Texture2D''")
  case False
  then show ?thesis by (simp add: process_texture_other)
next
  case True
  show ?thesis
  proof (cases "read obj")
    case (ReadRaises e)
    then show ?thesis
      using True by (simp add: process_texture_read_raises)
  next
    case (ReadOk dat)
    show ?thesis
    proof (cases "image_payload obj")
      case None
      then show ?thesis
        using True ReadOk by (simp add: process_texture_read_ok export_image_summary(4)[OF ReadOk])
    next
      case (Some bs)
      then have "p \<noteq> path_join OUTPUT_TEX (tex_name_clean (name_attr dat) (path_id obj) @ ''.png'')"
        using assms True ReadOk by (simp add: texture_file_def)
      then show ?thesis
        using True ReadOk by (simp add: process_texture_read_ok export_image_summary(5)[OF ReadOk])
    qed
  qed
qed

lemma process_texture_success:
  assumes "type_name obj = ''Texture2D''" "image_export_ok obj"
  shows "printed (process_texture obj s) = printed s"
    and "\<exists>path bs. texture_file obj = Some path \<and> image_payload obj = Some bs \<and>
           disk (process_texture obj s) = (disk s)(path \<mapsto> bs)"
proof -
  from assms(2) obtain dat img where r: "read obj = ReadOk dat" and i: "image dat = Image img"
    by (auto simp: image_export_ok_def split: read_outcome.splits image_outcome.splits)
  have pl: "image_payload obj = Some (png img)"
    using r i by (simp add: image_payload_def)
  show "printed (process_texture obj s) = printed s"
    using assms r by (simp add: process_texture_read_ok export_image_summary(2)[OF r])
  have "texture_file obj =
      Some (path_join OUTPUT_TEX (tex_name_clean (name_attr dat) (path_id obj) @ ''.png''))"
    using assms(1) r pl by (simp add: texture_file_def)
  moreover have "disk (process_texture obj s) =
      (disk s)(path_join OUTPUT_TEX (tex_name_clean (name_attr dat) (path_id obj) @ ''.png'')
        \<mapsto> png img)"
    using assms r pl by (simp add: process_texture_read_ok export_image_summary(2)[OF r])
  ultimately show "\<exists>path bs. texture_file obj = Some path \<and> image_payload obj = Some bs \<and>
           disk (process_texture obj s) = (disk s)(path \<mapsto> bs)"
    using pl by blast
qed

lemma process_texture_failure:
  assumes "type_name obj = ''Texture2D''" "\<not> image_export_ok obj"
  shows "\<exists>w. printed (process_texture obj s) = printed s @ [''[WARN] '' @ w]"
proof (cases "read obj")
  case (ReadRaises e)
  then show ?thesis
    using assms(1) by (simp add: process_texture_read_raises)
next
  case (ReadOk dat)
  then show ?thesis
    using assms(1) export_image_summary(3)[OF ReadOk assms(2)]
    by (simp add: process_texture_read_ok)
qed

lemma process_texture_nopayload:
  assumes "image_payload obj = None"
  shows "disk (process_texture obj s) = disk s"
proof (rule ext)
  fix p
  have "texture_file obj = None"
    using assms by (simp add: texture_file_def)
  then show "disk (process_texture obj s) p = disk s p"
    by (simp add: process_texture_disk)
qed

text \<open>One step of the sprite loop.\<close>

lemma process_sprite_other:
  "type_name obj \<noteq> ''Sprite'' \<Longrightarrow> process_sprite obj s = s"
  by (simp add: process_sprite_def)

lemma process_sprite_read_raises:
  "type_name obj = ''Sprite'' \<Longrightarrow> read obj = ReadRaises e \<Longrightarrow>
   process_sprite obj s = warn (''Failed to process sprite object: '' @ e) s"
  by (simp add: process_sprite_def)

lemma process_sprite_read_ok:
  "type_name obj = ''Sprite'' \<Longrightarrow> read obj = ReadOk dat \<Longrightarrow>
   process_sprite obj s =
     export_image ''sprite'' obj dat (sprite_name (name_attr dat) (path_id obj))
       (sprite_name_clean (name_attr dat) (path_id obj)) s"
  by (simp add: process_sprite_def)

lemma process_sprite_frame:
  "mesh_data (process_sprite obj s) = mesh_data s"
proof (cases "type_name obj = ''Sprite''")
  case False
  then show ?thesis by (simp add: process_sprite_other)
next
  case True
  then show ?thesis
    by (cases "read obj")
      (simp_all add: process_sprite_read_raises process_sprite_read_ok export_image_frame)
qed

lemma process_sprite_pool:
  "texture_data (process_sprite obj s) =
     texture_data s @
     (if type_name obj = ''Sprite'' \<and> image_export_ok obj then
        (case read obj of
           ReadOk dat \<Rightarrow>
             [\<lparr>name = sprite_name_clean (name_attr dat) (path_id obj),
               filename = sprite_name_clean (name_attr dat) (path_id obj) @ ''.png'',
               data = b64encode (the (image_payload obj)),
               original_name = sprite_name (name_attr dat) (path_id obj)\<rparr>]
         | ReadRaises e \<Rightarrow> [])
      else [])"
proof (cases "type_name obj = ''Sprite''")
  case False
  then show ?thesis by (simp add: process_sprite_other)
next
  case True
  show ?thesis
  proof (cases "read obj")
    case (ReadRaises e)
    then show ?thesis
      using True by (simp add: process_sprite_read_raises image_export_ok_def)
  next
    case (ReadOk dat)
    then show ?thesis
      using True by (simp add: process_sprite_read_ok export_image_summary(1)[OF ReadOk])
  qed
qed

lemma sprite_assets_of_cases:
  "sprite_assets_of obj =
     (if type_name obj = ''Sprite'' \<and> image_export_ok obj then
        (case read obj of
           ReadOk dat \<Rightarrow>
             [\<lparr>name = sprite_name_clean (name_attr dat) (path_id obj),
               filename = sprite_name_clean (name_attr dat) (path_id obj) @ ''.png'',
               data = b64encode (the (image_payload obj)),
               original_name = sprite_name (name_attr dat) (path_id obj)\<rparr>]
         | ReadRaises e \<Rightarrow> [])
      else [])"
  unfolding sprite_assets_of_def process_sprite_pool
  by (simp add: initial_state_def)

lemma process_sprite_data:
  "texture_data (process_sprite obj s) = texture_data s @ sprite_assets_of obj"
  unfolding sprite_assets_of_cases by (rule process_sprite_pool)

lemma process_sprite_disk:
  assumes "sprite_file obj \<noteq> Some p"
  shows "disk (process_sprite obj s) p = disk s p"
proof (cases "type_name obj = ''Sprite''")
  case False
  then show ?thesis by (simp add: process_sprite_other)
next
  case True
  show ?thesis
  proof (cases "read obj")
    case (ReadRaises e)
    then show ?thesis
      using True by (simp add: process_sprite_read_raises)
  next
    case (ReadOk dat)
    show ?thesis
    proof (cases "image_payload obj")
      case None
      then show ?thesis
        using True ReadOk by (simp add: process_sprite_read_ok export_image_summary(4)[OF ReadOk])
    next
      case (Some bs)
      then have "p \<noteq> path_join OUTPUT_TEX (sprite_name_clean (name_attr dat) (path_id obj) @ ''.png'')"
        using assms True ReadOk by (simp add: sprite_file_def)
      then show ?thesis
        using True ReadOk by (simp add: process_sprite_read_ok export_image_summary(5)[OF ReadOk])
    qed
  qed
qed

lemma process_sprite_success:
  assumes "type_name obj = ''Sprite''" "image_export_ok obj"
  shows "printed (process_sprite obj s) = printed s"
    and "\<exists>path bs. sprite_file obj = Some path \<and> image_payload obj = Some bs \<and>
           disk (process_sprite obj s) = (disk s)(path \<mapsto> bs)"
proof -
  from assms(2) obtain dat img where r: "read obj = ReadOk dat" and i: "image dat = Image img"
    by (auto simp: image_export_ok_def split: read_outcome.splits image_outcome.splits)
  have pl: "image_payload obj = Some (png img)"
    using r i by (simp add: image_payload_def)
  show "printed (process_sprite obj s) = printed s"
    using assms r by (simp add: process_sprite_read_ok export_image_summary(2)[OF r])
  have "sprite_file obj =
      Some (path_join OUTPUT_TEX (sprite_name_clean (name_attr dat) (path_id obj) @ ''.png''))"
    using assms(1) r pl by (simp add: sprite_file_def)
  moreover have "disk (process_sprite obj s) =
      (disk s)(path_join OUTPUT_TEX (sprite_name_clean (name_attr dat) (path_id obj) @ ''.png'')
        \<mapsto> png img)"
    using assms r pl by (simp add: process_sprite_read_ok export_image_summary(2)[OF r])
  ultimately show "\<exists>path bs. sprite_file obj = Some path \<and> image_payload obj = Some bs \<and>
           disk (process_sprite obj s) = (disk s)(path \<mapsto> bs)"
    using pl by blast
qed

lemma process_sprite_failure:
  assumes "type_name obj = ''Sprite''" "\<not> image_export_ok obj"
  shows "\<exists>w. printed (process_sprite obj s) = printed s @ [''[WARN] '' @ w]"
proof (cases "read obj")
  case (ReadRaises e)
  then show ?thesis
    using assms(1) by (simp add: process_sprite_read_raises)
next
  case (ReadOk dat)
  then show ?thesis
    using assms(1) export_image_summary(3)[OF ReadOk assms(2)]
    by (simp add: process_sprite_read_ok)
qed

lemma process_sprite_nopayload:
  assumes "image_payload obj = None"
  shows "disk (process_sprite obj s) = disk s"
proof (rule ext)
  fix p
  have "sprite_file obj = None"
    using assms by (simp add: sprite_file_def)
  then show "disk (process_sprite obj s) p = disk s p"
    by (simp add: process_sprite_disk)
qed

section \<open>The three passes\<close>

lemma extract_meshes_data:
  "mesh_data (extract_meshes objs s) = mesh_data s @ concat (map mesh_assets_of objs) \<and>
   texture_data (extract_meshes objs s) = texture_data s"
  unfolding extract_meshes_def
  by (induction objs arbitrary: s) (simp_all add: process_mesh_data process_mesh_frame)

lemma extract_textures_data:
  "texture_data (extract_textures objs s) = texture_data s @ concat (map texture_assets_of objs) \<and>
   mesh_data (extract_textures objs s) = mesh_data s"
  unfolding extract_textures_def
  by (induction objs arbitrary: s) (simp_all add: process_texture_data process_texture_frame)

lemma extract_sprites_data:
  "texture_data (extract_sprites objs s) = texture_data s @ concat (map sprite_assets_of objs) \<and>
   mesh_data (extract_sprites objs s) = mesh_data s"
  unfolding extract_sprites_def
  by (induction objs arbitrary: s) (simp_all add: process_sprite_data process_sprite_frame)

lemma run_extraction_data:
  "mesh_data (run_extraction objs) = concat (map mesh_assets_of objs)"
  "texture_data (run_extraction objs) =
     concat (map texture_assets_of objs) @ concat (map sprite_assets_of objs)"
  by (simp_all add: run_extraction_def extract_meshes_data extract_textures_data
      extract_sprites_data initial_state_def)

lemma fold_unwanted:
  assumes "\<And>obj s. obj \<in> set objs \<Longrightarrow> step obj s = s"
  shows "fold step objs s = s"
  using assms by (induction objs arbitrary: s) simp_all

lemma run_extraction_unwanted:
  assumes "\<forall>obj \<in> set objs. type_name obj \<notin> {''Mesh'', ''Texture2D'', ''Sprite''}"
  shows "run_extraction objs = initial_state"
proof -
  have m: "extract_meshes objs initial_state = initial_state"
    unfolding extract_meshes_def using assms
    by (intro fold_unwanted process_mesh_other) auto
  have t: "extract_textures objs initial_state = initial_state"
    unfolding extract_textures_def using assms
    by (intro fold_unwanted process_texture_other) auto
  have p: "extract_sprites objs initial_state = initial_state"
    unfolding extract_sprites_def using assms
    by (intro fold_unwanted process_sprite_other) auto
  show ?thesis
    by (simp add: run_extraction_def m t p)
qed

lemma concat_assets_filter:
  assumes "\<And>obj. \<not> P obj \<Longrightarrow> f obj = []"
  shows "concat (map f (filter P objs)) = concat (map f objs)"
  using assms by (induction objs) simp_all

section \<open>The modules and the assets they name\<close>

lemma main_preset_file:
  assumes "preset_file (main env) = Some (path, p)"
  shows "\<exists>objs. load_outcome env = Inr objs \<and> p = built_preset objs \<and>
           mesh_data (final (main env)) = mesh_data (run_extraction objs) \<and>
           texture_data (final (main env)) = texture_data (run_extraction objs)"
  using assms
  by (auto simp: main_def error_def uncaught_def summary_def Let_def
      split: if_splits list.splits sum.splits option.splits)

text \<open>
  Claim C1. The preset's module list is the trail module followed by the custom-model
  module of each extracted mesh, in the order of extraction; it has one entry more than
  there are meshes, whatever the textures are. This holds for the preset of every run
  that writes one.
\<close>

theorem modules_are_trail_then_meshes:
  "Modules (generate_preset meshes textures) =
     trail_module (trail_texture_of textures) # map custom_model_module meshes \<and>
   length (Modules (generate_preset meshes textures)) = 1 + length meshes \<and>
   json_get ''ModuleId'' (Modules (generate_preset meshes textures) ! 0) =
     Some (JStr ''reezonate.simple-trail'') \<and>
   (\<forall>i < length meshes.
      json_get ''ModuleId'' (Modules (generate_preset meshes textures) ! Suc i) =
        Some (JStr ''reezonate.custom-model'') \<and>
      json_path [''Config'', ''MeshSettings'', ''modelId'']
        (Modules (generate_preset meshes textures) ! Suc i) =
        Some (JStr (filename (meshes ! i)))) \<and>
   (\<forall>path p. preset_file (main env) = Some (path, p) \<longrightarrow>
      Modules p = trail_module (trail_texture_of (texture_data (final (main env)))) #
                  map custom_model_module (mesh_data (final (main env))) \<and>
      length (Modules p) = 1 + length (mesh_data (final (main env))))"
proof (intro conjI allI impI)
  show m: "Modules (generate_preset meshes textures) =
     trail_module (trail_texture_of textures) # map custom_model_module meshes"
    by (rule generate_preset_Modules)
  show "length (Modules (generate_preset meshes textures)) = 1 + length meshes"
    by (simp add: m)
  show "json_get ''ModuleId'' (Modules (generate_preset meshes textures) ! 0) =
     Some (JStr ''reezonate.simple-trail'')"
    by (simp add: m trail_module_id)
next
  fix i assume "i < length meshes"
  then show "json_get ''ModuleId'' (Modules (generate_preset meshes textures) ! Suc i) =
        Some (JStr ''reezonate.custom-model'')"
    by (simp add: generate_preset_Modules custom_model_module_id)
  from \<open>i < length meshes\<close>
  show "json_path [''Config'', ''MeshSettings'', ''modelId'']
        (Modules (generate_preset meshes textures) ! Suc i) =
        Some (JStr (filename (meshes ! i)))"
    by (simp add: generate_preset_Modules custom_model_modelId del: json_path.simps)
next
  fix path p assume a: "preset_file (main env) = Some (path, p)"
  from main_preset_file[OF a] obtain objs where
    o: "p = built_preset objs"
       "mesh_data (final (main env)) = mesh_data (run_extraction objs)"
       "texture_data (final (main env)) = texture_data (run_extraction objs)"
    by blast
  show "Modules p = trail_module (trail_texture_of (texture_data (final (main env)))) #
                  map custom_model_module (mesh_data (final (main env)))"
    by (simp add: o built_preset_def generate_preset_Modules)
  then show "length (Modules p) = 1 + length (mesh_data (final (main env)))"
    by simp
qed


theorem modules_are_trail_then_meshes_witness:
  "json_path [''Config'', ''MeshSettings'', ''modelId'']
     (Modules (generate_preset
        [\<lparr>name = ''a'', filename = ''a.obj'', data = ''dg=='', original_name = ''a''\<rparr>,
         \<lparr>name = ''b'', filename = ''b.obj'', data = ''dg=='', original_name = ''b''\<rparr>] []) ! Suc 1) =
     Some (JStr ''b.obj'') \<and>
   length (Modules (generate_preset
        [\<lparr>name = ''a'', filename = ''a.obj'', data = ''dg=='', original_name = ''a''\<rparr>,
         \<lparr>name = ''b'', filename = ''b.obj'', data = ''dg=='', original_name = ''b''\<rparr>] [])) = 1 + 2"
proof -
  let ?ms = "[\<lparr>name = ''a'', filename = ''a.obj'', data = ''dg=='', original_name = ''a''\<rparr>,
         \<lparr>name = ''b'', filename = ''b.obj'', data = ''dg=='', original_name = ''b''\<rparr>]"
  have i: "(1::nat) < length ?ms" by simp
  from modules_are_trail_then_meshes[of ?ms "[]"] i
  have "json_path [''Config'', ''MeshSettings'', ''modelId'']
        (Modules (generate_preset ?ms []) ! Suc 1) = Some (JStr (filename (?ms ! 1)))"
    by blast
  moreover from modules_are_trail_then_meshes[of ?ms "[]"]
  have "length (Modules (generate_preset ?ms [])) = 1 + length ?ms"
    by blast
  ultimately show ?thesis
    by (simp del: json_path.simps)
qed

text \<open>
  Claim C2. In the preset built from the extracted meshes and textures, every model id
  of a module is the asset name of a geometry entry, and every texture id of a module
  is the asset name of a texture entry, or is the empty string when no texture was
  extracted. Both texture ids of the trail module are the file name of the first
  extracted texture when there is one.
\<close>

theorem module_ids_name_assets:
  "(\<forall>m \<in> set (Modules (generate_preset meshes textures)).
      (\<forall>r \<in> set (strings_under ''modelId'' m).
         r \<in> AssetName ` set (Geometry (BinaryAssets (generate_preset meshes textures)))) \<and>
      (\<forall>r \<in> set (strings_under ''customTextureId'' m @ strings_under ''opacityTextureId'' m).
         r \<in> AssetName ` set (Textures (BinaryAssets (generate_preset meshes textures))) \<or>
         (r = [] \<and> textures = []))) \<and>
   (textures \<noteq> [] \<longrightarrow>
      json_path [''Config'', ''MaterialSettings'', ''generalSettings'', ''customTextureId'']
        (Modules (generate_preset meshes textures) ! 0) = Some (JStr (filename (hd textures))) \<and>
      json_path [''Config'', ''MaterialSettings'', ''generalSettings'', ''opacityTextureId'']
        (Modules (generate_preset meshes textures) ! 0) = Some (JStr (filename (hd textures)))) \<and>
   (textures = [] \<longrightarrow>
      json_path [''Config'', ''MaterialSettings'', ''generalSettings'', ''customTextureId'']
        (Modules (generate_preset meshes textures) ! 0) = Some (JStr []) \<and>
      json_path [''Config'', ''MaterialSettings'', ''generalSettings'', ''opacityTextureId'']
        (Modules (generate_preset meshes textures) ! 0) = Some (JStr []))"
proof -
  have t: "trail_texture_of textures \<in> filename ` set textures \<or>
           (trail_texture_of textures = [] \<and> textures = [])"
    by (cases textures) (simp_all add: trail_texture_of_def)
  have g: "AssetName ` set (Geometry (BinaryAssets (generate_preset meshes textures))) =
           filename ` set meshes"
    by (simp add: generate_preset_Geometry image_image)
  have x: "AssetName ` set (Textures (BinaryAssets (generate_preset meshes textures))) =
           filename ` set textures"
    by (simp add: generate_preset_Textures image_image)
  have 1: "\<forall>m \<in> set (Modules (generate_preset meshes textures)).
      (\<forall>r \<in> set (strings_under ''modelId'' m).
         r \<in> AssetName ` set (Geometry (BinaryAssets (generate_preset meshes textures)))) \<and>
      (\<forall>r \<in> set (strings_under ''customTextureId'' m @ strings_under ''opacityTextureId'' m).
         r \<in> AssetName ` set (Textures (BinaryAssets (generate_preset meshes textures))) \<or>
         (r = [] \<and> textures = []))"
    unfolding g x generate_preset_Modules
    using t by (auto simp: strings_under_trail strings_under_custom_model)
  have h: "textures \<noteq> [] \<Longrightarrow> trail_texture_of textures = filename (hd textures)"
    by (cases textures) (simp_all add: trail_texture_of_def)
  have e: "textures = [] \<Longrightarrow> trail_texture_of textures = []"
    by (simp add: trail_texture_of_def)
  show ?thesis
    using 1 h e
    by (simp add: generate_preset_Modules trail_texture_ids del: json_path.simps)
qed

theorem module_ids_name_assets_witness:
  "json_path [''Config'', ''MaterialSettings'', ''generalSettings'', ''customTextureId'']
     (Modules (generate_preset []
        [\<lparr>name = ''t'', filename = ''t.png'', data = ''iQ=='', original_name = ''t''\<rparr>]) ! 0) =
     Some (JStr ''t.png'') \<and>
   json_path [''Config'', ''MaterialSettings'', ''generalSettings'', ''customTextureId'']
     (Modules (generate_preset [] []) ! 0) = Some (JStr [])"
proof -
  let ?ts = "[\<lparr>name = ''t'', filename = ''t.png'', data = ''iQ=='', original_name = ''t''\<rparr>]"
  have n: "?ts \<noteq> []" by simp
  from module_ids_name_assets[of "[]" ?ts] n
  have "json_path [''Config'', ''MaterialSettings'', ''generalSettings'', ''customTextureId'']
        (Modules (generate_preset [] ?ts) ! 0) = Some (JStr (filename (hd ?ts)))"
    by blast
  moreover from module_ids_name_assets[of "[]" "[]"]
  have "json_path [''Config'', ''MaterialSettings'', ''generalSettings'', ''customTextureId'']
        (Modules (generate_preset [] []) ! 0) = Some (JStr [])"
    by blast
  ultimately show ?thesis
    by (simp del: json_path.simps)
qed

section \<open>A bundle with nothing to extract\<close>

text \<open>
  Claim C7. Take a run whose surroundings are sound: the asset library is installed,
  the output folders can be created, a \<open>.saber\<close> file is found and loads, the preset
  file can be written and the standard output can encode the closing lines. When the
  bundle holds no Mesh, Texture2D or Sprite object, the run ends with status 0; it
  prints the warning that no mesh was extracted and no other warning or error; no
  asset file is written; the preset written has the trail module as its only module,
  with both texture ids the empty string, and both asset lists empty.
\<close>

theorem empty_bundle_still_gives_preset:
  assumes "unitypy_installed env"
    and "mkdir_error env = None"
    and "saber_files env = saber_file # others"
    and "load_outcome env = Inr objs"
    and "\<forall>obj \<in> set objs. type_name obj \<notin> {''Mesh'', ''Texture2D'', ''Sprite''}"
    and "preset_write_error env = None"
    and "stdout_encodes_symbols env"
  shows "exit_status (main env) = 0 \<and>
    printed (final (main env)) = [''[WARN] Warning: No meshes extracted. Preset will be empty.''] \<and>
    disk (final (main env)) = Map.empty \<and>
    (\<exists>p. preset_file (main env) = Some (''output/Presets/'' @ stem saber_file @ ''.json'', p) \<and>
         Modules p = [trail_module []] \<and>
         json_get ''ModuleId'' (trail_module []) = Some (JStr ''reezonate.simple-trail'') \<and>
         json_path [''Config'', ''MaterialSettings'', ''generalSettings'', ''customTextureId'']
           (trail_module []) = Some (JStr []) \<and>
         json_path [''Config'', ''MaterialSettings'', ''generalSettings'', ''opacityTextureId'']
           (trail_module []) = Some (JStr []) \<and>
         Textures (BinaryAssets p) = [] \<and>
         Geometry (BinaryAssets p) = [])"
proof -
  have x: "run_extraction objs = initial_state"
    using assms(5) by (rule run_extraction_unwanted)
  have s: "printed (summary initial_state) =
      [''[WARN] Warning: No meshes extracted. Preset will be empty.'']"
      "disk (summary initial_state) = Map.empty"
    by (simp_all add: summary_def warn_def initial_state_def)
  have b: "built_preset objs = generate_preset [] []"
    by (simp add: built_preset_def x initial_state_def)
  have m: "main env =
      \<lparr>exit_status = 0, final = summary initial_state,
       preset_file = Some (path_join OUTPUT_PRESETS (stem saber_file @ ''.json''),
                           generate_preset [] [])\<rparr>"
    using assms(1,2,3,4,6,7) by (simp add: main_def x b Let_def)
  have g: "Modules (generate_preset [] []) = [trail_module []]"
    by (simp add: generate_preset_Modules trail_texture_of_def)
  show ?thesis
    unfolding m
    by (simp add: s g generate_preset_Geometry generate_preset_Textures trail_module_id
        trail_texture_ids path_join_def OUTPUT_PRESETS_def
        del: json_path.simps)
qed

text \<open>
  With a standard output that cannot encode U+2705 (cp1252, latin-1, ascii), the same
  run writes the same preset and then ends with status 1: line 484 raises outside any
  handler.
\<close>

lemma empty_bundle_on_narrow_stdout:
  assumes "unitypy_installed env"
    and "mkdir_error env = None"
    and "saber_files env = saber_file # others"
    and "load_outcome env = Inr objs"
    and "preset_write_error env = None"
    and "\<not> stdout_encodes_symbols env"
  shows "exit_status (main env) = 1 \<and>
    preset_file (main env) =
      Some (path_join OUTPUT_PRESETS (stem saber_file @ ''.json''), built_preset objs)"
  using assms by (simp add: main_def uncaught_def Let_def)

theorem empty_bundle_still_gives_preset_witness:
  "exit_status (main \<lparr>unitypy_installed = True, mkdir_error = None, saber_files = [''my.saber''],
            load_outcome = Inr [\<lparr>type_name = ''GameObject'', path_id = 1,
                                  read = ReadRaises ''unread'', file_write = Written\<rparr>],
            preset_write_error = None, stdout_encodes_symbols = True\<rparr>) = 0 \<and>
   printed (final (main \<lparr>unitypy_installed = True, mkdir_error = None, saber_files = [''my.saber''],
            load_outcome = Inr [\<lparr>type_name = ''GameObject'', path_id = 1,
                                  read = ReadRaises ''unread'', file_write = Written\<rparr>],
            preset_write_error = None, stdout_encodes_symbols = True\<rparr>)) =
     [''[WARN] Warning: No meshes extracted. Preset will be empty.'']"
proof -
  let ?env = "\<lparr>unitypy_installed = True, mkdir_error = None, saber_files = [''my.saber''],
            load_outcome = Inr [\<lparr>type_name = ''GameObject'', path_id = 1,
                                  read = ReadRaises ''unread'', file_write = Written\<rparr>],
            preset_write_error = None, stdout_encodes_symbols = True\<rparr>"
  have "exit_status (main ?env) = 0 \<and>
    printed (final (main ?env)) = [''[WARN] Warning: No meshes extracted. Preset will be empty.''] \<and>
    disk (final (main ?env)) = Map.empty \<and>
    (\<exists>p. preset_file (main ?env) = Some (''output/Presets/'' @ stem ''my.saber'' @ ''.json'', p) \<and>
         Modules p = [trail_module []] \<and>
         json_get ''ModuleId'' (trail_module []) = Some (JStr ''reezonate.simple-trail'') \<and>
         json_path [''Config'', ''MaterialSettings'', ''generalSettings'', ''customTextureId'']
           (trail_module []) = Some (JStr []) \<and>
         json_path [''Config'', ''MaterialSettings'', ''generalSettings'', ''opacityTextureId'']
           (trail_module []) = Some (JStr []) \<and>
         Textures (BinaryAssets p) = [] \<and>
         Geometry (BinaryAssets p) = [])"
    by (rule empty_bundle_still_gives_preset[where others = "[]" and objs = "[\<lparr>type_name = ''GameObject'', path_id = 1,
                                  read = ReadRaises ''unread'', file_write = Written\<rparr>]"]) simp_all
  then show ?thesis by blast
qed

section \<open>The order of the texture pool\<close>

lemma trail_texture_of_append:
  "trail_texture_of (ts @ ss) = (if ts \<noteq> [] then filename (hd ts) else trail_texture_of ss)"
  by (cases ts) (simp_all add: trail_texture_of_def)

lemma built_preset_trail_id:
  "json_path [''Config'', ''MaterialSettings'', ''generalSettings'', ''customTextureId'']
     (Modules (built_preset objs) ! 0) =
   Some (JStr (trail_texture_of (texture_data (run_extraction objs))))"
  by (simp add: built_preset_def generate_preset_Modules trail_texture_ids del: json_path.simps)

text \<open>
  Claim C10, as stated, fails: a Texture2D and a Sprite of the same name give the same
  file name. In the bundle below the sprite comes first and the texture second; both
  are extracted as \<open>Logo.png\<close>, so the trail's texture id is the file name of an
  extracted Sprite although a Texture2D was extracted.
\<close>

theorem trail_id_can_be_a_sprite_filename:
  "json_path [''Config'', ''MaterialSettings'', ''generalSettings'', ''customTextureId'']
     (Modules (built_preset
        [\<lparr>type_name = ''Sprite'', path_id = 2,
          read = ReadOk \<lparr>name_attr = Some ''Logo'', export = ExportNone,
                         image = Image \<lparr>png_chunks = [0, 0, 0, 13], buffer_error = None\<rparr>\<rparr>,
          file_write = Written\<rparr>,
         \<lparr>type_name = ''Texture2D'', path_id = 1,
          read = ReadOk \<lparr>name_attr = Some ''Logo'', export = ExportNone,
                         image = Image \<lparr>png_chunks = [0, 0, 0, 13, 73], buffer_error = None\<rparr>\<rparr>,
          file_write = Written\<rparr>]) ! 0) = Some (JStr ''Logo.png'') \<and>
   ''Logo.png'' \<in> filename ` set (sprite_assets_of
        \<lparr>type_name = ''Sprite'', path_id = 2,
          read = ReadOk \<lparr>name_attr = Some ''Logo'', export = ExportNone,
                         image = Image \<lparr>png_chunks = [0, 0, 0, 13], buffer_error = None\<rparr>\<rparr>,
          file_write = Written\<rparr>) \<and>
   texture_assets_of
        \<lparr>type_name = ''Texture2D'', path_id = 1,
          read = ReadOk \<lparr>name_attr = Some ''Logo'', export = ExportNone,
                         image = Image \<lparr>png_chunks = [0, 0, 0, 13, 73], buffer_error = None\<rparr>\<rparr>,
          file_write = Written\<rparr> \<noteq> []"
proof -
  let ?S = "\<lparr>type_name = ''Sprite'', path_id = 2,
          read = ReadOk \<lparr>name_attr = Some ''Logo'', export = ExportNone,
                         image = Image \<lparr>png_chunks = [0, 0, 0, 13], buffer_error = None\<rparr>\<rparr>,
          file_write = Written\<rparr>"
  let ?T = "\<lparr>type_name = ''Texture2D'', path_id = 1,
          read = ReadOk \<lparr>name_attr = Some ''Logo'', export = ExportNone,
                         image = Image \<lparr>png_chunks = [0, 0, 0, 13, 73], buffer_error = None\<rparr>\<rparr>,
          file_write = Written\<rparr>"
  have n1: "tex_name_clean (Some ''Logo'') 1 = ''Logo''"
    by code_simp
  have n2: "sprite_name_clean (Some ''Logo'') 2 = ''Logo''"
    by code_simp
  have ss: "map filename (sprite_assets_of ?S) = [''Logo.png'']"
    by (simp add: sprite_assets_of_cases image_export_ok_def n2)
  have st: "sprite_assets_of ?T = []"
    by (simp add: sprite_assets_of_cases)
  have tt: "map filename (texture_assets_of ?T) = [''Logo.png'']"
    by (simp add: texture_assets_of_cases image_export_ok_def n1)
  have ts: "texture_assets_of ?S = []"
    by (simp add: texture_assets_of_cases)
  have ne: "texture_assets_of ?T \<noteq> []"
    using tt by auto
  have "trail_texture_of (texture_data (run_extraction [?S, ?T])) =
          filename (hd (texture_assets_of ?T))"
    using ne by (simp add: run_extraction_data trail_texture_of_append ts st)
  also have "\<dots> = hd (map filename (texture_assets_of ?T))"
    using ne by (simp add: hd_map)
  also have "\<dots> = ''Logo.png''"
    by (simp add: tt)
  finally have tr: "trail_texture_of (texture_data (run_extraction [?S, ?T])) = ''Logo.png''" .
  have m: "''Logo.png'' \<in> filename ` set (sprite_assets_of ?S)"
    using ss by (metis list.set_intros(1) set_map)
  show ?thesis
    using m ne by (simp add: built_preset_trail_id tr del: json_path.simps)
qed


text \<open>
  Claim C10, amended. The texture pool is the assets of the Texture2D objects in the
  order of the bundle, followed by the assets of the Sprite objects in that order; an
  object of another type contributes nothing to its part. So the trail's texture id is
  the file name of the first extracted Texture2D asset when there is one, and comes
  from the first extracted Sprite asset only when no Texture2D asset was extracted. A
  sprite can still have the same file name as that texture.
\<close>

theorem pool_is_textures_then_sprites:
  "texture_data (run_extraction objs) =
     concat (map texture_assets_of objs) @ concat (map sprite_assets_of objs) \<and>
   concat (map texture_assets_of objs) =
     concat (map texture_assets_of (filter (\<lambda>obj. type_name obj = ''Texture2D'') objs)) \<and>
   concat (map sprite_assets_of objs) =
     concat (map sprite_assets_of (filter (\<lambda>obj. type_name obj = ''Sprite'') objs)) \<and>
   json_path [''Config'', ''MaterialSettings'', ''generalSettings'', ''customTextureId'']
     (Modules (built_preset objs) ! 0) =
     Some (JStr (trail_texture_of (texture_data (run_extraction objs)))) \<and>
   (concat (map texture_assets_of objs) \<noteq> [] \<longrightarrow>
      trail_texture_of (texture_data (run_extraction objs)) =
        filename (hd (concat (map texture_assets_of objs)))) \<and>
   (concat (map texture_assets_of objs) = [] \<longrightarrow>
      trail_texture_of (texture_data (run_extraction objs)) =
        trail_texture_of (concat (map sprite_assets_of objs)))"
proof (intro conjI impI)
  show "texture_data (run_extraction objs) =
     concat (map texture_assets_of objs) @ concat (map sprite_assets_of objs)"
    by (rule run_extraction_data)
  show "concat (map texture_assets_of objs) =
     concat (map texture_assets_of (filter (\<lambda>obj. type_name obj = ''Texture2D'') objs))"
    by (rule concat_assets_filter[symmetric]) (simp add: texture_assets_of_cases)
  show "concat (map sprite_assets_of objs) =
     concat (map sprite_assets_of (filter (\<lambda>obj. type_name obj = ''Sprite'') objs))"
    by (rule concat_assets_filter[symmetric]) (simp add: sprite_assets_of_cases)
  show "json_path [''Config'', ''MaterialSettings'', ''generalSettings'', ''customTextureId'']
     (Modules (built_preset objs) ! 0) =
     Some (JStr (trail_texture_of (texture_data (run_extraction objs))))"
    by (rule built_preset_trail_id)
next
  assume "concat (map texture_assets_of objs) \<noteq> []"
  then show "trail_texture_of (texture_data (run_extraction objs)) =
        filename (hd (concat (map texture_assets_of objs)))"
    by (simp add: run_extraction_data trail_texture_of_append)
next
  assume "concat (map texture_assets_of objs) = []"
  then show "trail_texture_of (texture_data (run_extraction objs)) =
        trail_texture_of (concat (map sprite_assets_of objs))"
    by (simp add: run_extraction_data trail_texture_of_append)
qed

theorem pool_is_textures_then_sprites_witness:
  "trail_texture_of (texture_data (run_extraction
      [\<lparr>type_name = ''Sprite'', path_id = 2,
        read = ReadOk \<lparr>name_attr = Some ''Icon'', export = ExportNone,
                       image = Image \<lparr>png_chunks = [0, 0, 0, 13], buffer_error = None\<rparr>\<rparr>,
        file_write = Written\<rparr>,
       \<lparr>type_name = ''Texture2D'', path_id = 1,
        read = ReadOk \<lparr>name_attr = Some ''Glow'', export = ExportNone,
                       image = Image \<lparr>png_chunks = [0, 0, 0, 13, 73], buffer_error = None\<rparr>\<rparr>,
        file_write = Written\<rparr>])) = ''Glow.png''"
proof -
  let ?S = "\<lparr>type_name = ''Sprite'', path_id = 2,
        read = ReadOk \<lparr>name_attr = Some ''Icon'', export = ExportNone,
                       image = Image \<lparr>png_chunks = [0, 0, 0, 13], buffer_error = None\<rparr>\<rparr>,
        file_write = Written\<rparr>"
  let ?T = "\<lparr>type_name = ''Texture2D'', path_id = 1,
        read = ReadOk \<lparr>name_attr = Some ''Glow'', export = ExportNone,
                       image = Image \<lparr>png_chunks = [0, 0, 0, 13, 73], buffer_error = None\<rparr>\<rparr>,
        file_write = Written\<rparr>"
  have n1: "tex_name_clean (Some ''Glow'') 1 = ''Glow''"
    by code_simp
  have tt: "map filename (texture_assets_of ?T) = [''Glow.png'']"
    by (simp add: texture_assets_of_cases image_export_ok_def n1)
  have ts: "texture_assets_of ?S = []"
    by (simp add: texture_assets_of_cases)
  have ne: "concat (map texture_assets_of [?S, ?T]) \<noteq> []"
    using tt by auto
  from pool_is_textures_then_sprites[of "[?S, ?T]"] ne
  have "trail_texture_of (texture_data (run_extraction [?S, ?T])) =
        filename (hd (concat (map texture_assets_of [?S, ?T])))"
    by blast
  also have "\<dots> = hd (map filename (texture_assets_of ?T))"
    using ne by (simp add: ts hd_map)
  also have "\<dots> = ''Glow.png''"
    by (simp add: tt)
  finally show ?thesis .
qed

section \<open>The fallback names\<close>

text \<open>
  Claim C4, as stated, fails for Texture2D: the fallback of a texture is \<open>texture_\<close>
  and the path id, not the lower-cased type name \<open>texture2d\<close> and the path id.
\<close>

theorem texture_fallback_is_not_the_lowercased_type:
  "tex_name None 7 = ''texture_7'' \<and>
   spec_synthesized_name ''Texture2D'' 7 = ''texture2d_7'' \<and>
   tex_name None 7 \<noteq> spec_synthesized_name ''Texture2D'' 7"
  by code_simp

text \<open>
  Claim C4, amended. When the name attribute is absent or empty, the name of a mesh is
  \<open>mesh_\<close>, of a sprite \<open>sprite_\<close> and of a texture \<open>texture_\<close>, each followed by the
  path id; for Mesh and Sprite that is the lower-cased type name, an underscore and the
  path id. The same fallback is the cleaned name when the name has no character to
  keep, so a mesh named \<open>###\<close> with path id 42 is extracted as \<open>mesh_42.obj\<close>.
\<close>

theorem fallback_names:
  "(attr = None \<or> attr = Some [] \<longrightarrow>
      mesh_name attr pid = ''mesh_'' @ str_int pid \<and>
      mesh_name attr pid = spec_synthesized_name ''Mesh'' pid \<and>
      sprite_name attr pid = ''sprite_'' @ str_int pid \<and>
      sprite_name attr pid = spec_synthesized_name ''Sprite'' pid \<and>
      tex_name attr pid = ''texture_'' @ str_int pid \<and>
      mesh_name_clean attr pid = ''mesh_'' @ str_int pid \<and>
      sprite_name_clean attr pid = ''sprite_'' @ str_int pid \<and>
      tex_name_clean attr pid = ''texture_'' @ str_int pid) \<and>
   ((\<forall>c \<in> set nm. keep_char c \<longrightarrow> c = CHR '' '') \<longrightarrow>
      mesh_name_clean (Some nm) pid = ''mesh_'' @ str_int pid \<and>
      sprite_name_clean (Some nm) pid = ''sprite_'' @ str_int pid \<and>
      tex_name_clean (Some nm) pid = ''texture_'' @ str_int pid) \<and>
   (type_name obj = ''Mesh'' \<and> read obj = ReadOk dat \<and> mesh_export_ok obj \<longrightarrow>
      map filename (mesh_assets_of obj) =
        [mesh_name_clean (name_attr dat) (path_id obj) @ ''.obj'']) \<and>
   mesh_name_clean (Some ''###'') 42 @ ''.obj'' = ''mesh_42.obj''"
proof (intro conjI impI)
  have lm: "lower ''Mesh'' = ''mesh''" by code_simp
  have ls: "lower ''Sprite'' = ''sprite''" by code_simp
  assume a: "attr = None \<or> attr = Some []"
  then have r: "resolve_name attr fb = fb" for fb
    by (auto simp: resolve_name_def)
  show "mesh_name attr pid = ''mesh_'' @ str_int pid"
    by (simp add: mesh_name_def r mesh_fallback_def)
  show "mesh_name attr pid = spec_synthesized_name ''Mesh'' pid"
    by (simp add: mesh_name_def r mesh_fallback_def spec_synthesized_name_def lm)
  show "sprite_name attr pid = ''sprite_'' @ str_int pid"
    by (simp add: sprite_name_def r sprite_fallback_def)
  show "sprite_name attr pid = spec_synthesized_name ''Sprite'' pid"
    by (simp add: sprite_name_def r sprite_fallback_def spec_synthesized_name_def ls)
  show "tex_name attr pid = ''texture_'' @ str_int pid"
    by (simp add: tex_name_def r texture_fallback_def)
  show "mesh_name_clean attr pid = ''mesh_'' @ str_int pid"
    using sanitize_mesh_fallback[of pid "mesh_fallback pid"]
    by (simp add: mesh_name_clean_def mesh_name_def r mesh_fallback_def)
  show "sprite_name_clean attr pid = ''sprite_'' @ str_int pid"
    using sanitize_sprite_fallback[of pid "sprite_fallback pid"]
    by (simp add: sprite_name_clean_def sprite_name_def r sprite_fallback_def)
  show "tex_name_clean attr pid = ''texture_'' @ str_int pid"
    using sanitize_texture_fallback[of pid "texture_fallback pid"]
    by (simp add: tex_name_clean_def tex_name_def r texture_fallback_def)
next
  assume a: "\<forall>c \<in> set nm. keep_char c \<longrightarrow> c = CHR '' ''"
  have s: "sanitize nm fb = fb" for fb
    using a by (simp add: sanitize_def kept_strip_Nil_iff)
  have r: "sanitize (resolve_name (Some nm) fb) fb = fb" if "sanitize fb fb = fb" for fb
    using that s by (simp add: resolve_name_def)
  show "mesh_name_clean (Some nm) pid = ''mesh_'' @ str_int pid"
    using r[OF sanitize_mesh_fallback[of pid "mesh_fallback pid"]]
    by (simp add: mesh_name_clean_def mesh_name_def mesh_fallback_def)
  show "sprite_name_clean (Some nm) pid = ''sprite_'' @ str_int pid"
    using r[OF sanitize_sprite_fallback[of pid "sprite_fallback pid"]]
    by (simp add: sprite_name_clean_def sprite_name_def sprite_fallback_def)
  show "tex_name_clean (Some nm) pid = ''texture_'' @ str_int pid"
    using r[OF sanitize_texture_fallback[of pid "texture_fallback pid"]]
    by (simp add: tex_name_clean_def tex_name_def texture_fallback_def)
next
  assume "type_name obj = ''Mesh'' \<and> read obj = ReadOk dat \<and> mesh_export_ok obj"
  then show "map filename (mesh_assets_of obj) =
        [mesh_name_clean (name_attr dat) (path_id obj) @ ''.obj'']"
    by (simp add: mesh_assets_of_cases)
next
  show "mesh_name_clean (Some ''###'') 42 @ ''.obj'' = ''mesh_42.obj''"
    by code_simp
qed

theorem fallback_names_witness:
  "mesh_name None 42 = ''mesh_'' @ str_int 42 \<and>
   tex_name (Some []) (- 5) = ''texture_'' @ str_int (- 5) \<and>
   mesh_name_clean (Some ''###'') 42 = ''mesh_'' @ str_int 42 \<and>
   str_int 42 = ''42'' \<and> str_int (- 5) = ''-5'' \<and>
   map filename (mesh_assets_of
     \<lparr>type_name = ''Mesh'', path_id = 42,
      read = ReadOk \<lparr>name_attr = Some ''###'', export = ExportStr ''v 0 0 0'',
                     image = ImageRaises ''no image''\<rparr>,
      file_write = Written\<rparr>) = [''mesh_42.obj'']"
proof -
  let ?dat = "\<lparr>name_attr = Some ''###'', export = ExportStr ''v 0 0 0'',
                     image = ImageRaises ''no image''\<rparr>"
  let ?obj = "\<lparr>type_name = ''Mesh'', path_id = 42, read = ReadOk ?dat, file_write = Written\<rparr>"
  have h1: "(None :: string option) = None \<or> (None :: string option) = Some []" by simp
  have h2: "Some ([] :: string) = None \<or> Some ([] :: string) = Some []" by simp
  have h3: "\<forall>c \<in> set ''###''. keep_char c \<longrightarrow> c = CHR '' ''" by code_simp
  have h4: "type_name ?obj = ''Mesh'' \<and> read ?obj = ReadOk ?dat \<and> mesh_export_ok ?obj"
    by (simp add: mesh_export_ok_def mesh_payload_def)
  have e: "str_int 42 = ''42''" "str_int (- 5) = ''-5''"
    by code_simp+
  from fallback_names[of None 42 "''###''" ?obj ?dat] h1 h3 h4
  have a: "mesh_name None 42 = ''mesh_'' @ str_int 42"
    and b: "mesh_name_clean (Some ''###'') 42 = ''mesh_'' @ str_int 42"
    and c: "map filename (mesh_assets_of ?obj) =
        [mesh_name_clean (name_attr ?dat) (path_id ?obj) @ ''.obj'']"
    and d: "mesh_name_clean (Some ''###'') 42 @ ''.obj'' = ''mesh_42.obj''"
    by blast+
  from fallback_names[of "Some []" "- 5" "[]" ?obj ?dat] h2
  have f: "tex_name (Some []) (- 5) = ''texture_'' @ str_int (- 5)"
    by blast
  have g: "map filename (mesh_assets_of ?obj) = [''mesh_42.obj'']"
    using c d by simp
  from a b f e g show ?thesis by blast
qed

section \<open>Textures and sprites that fail to export\<close>

lemma texture_assets_of_ok:
  assumes "type_name obj = ''Texture2D''" "image_export_ok obj"
  shows "\<exists>a. texture_assets_of obj = [a] \<and> b64decode (data a) = image_payload obj"
proof -
  from assms(2) obtain dat img where r: "read obj = ReadOk dat" and i: "image dat = Image img"
    by (auto simp: image_export_ok_def split: read_outcome.splits image_outcome.splits)
  have "image_payload obj = Some (png img)"
    using r i by (simp add: image_payload_def)
  then show ?thesis
    using assms r by (simp add: texture_assets_of_cases b64decode_b64encode)
qed

lemma sprite_assets_of_ok:
  assumes "type_name obj = ''Sprite''" "image_export_ok obj"
  shows "\<exists>a. sprite_assets_of obj = [a] \<and> b64decode (data a) = image_payload obj"
proof -
  from assms(2) obtain dat img where r: "read obj = ReadOk dat" and i: "image dat = Image img"
    by (auto simp: image_export_ok_def split: read_outcome.splits image_outcome.splits)
  have "image_payload obj = Some (png img)"
    using r i by (simp add: image_payload_def)
  then show ?thesis
    using assms r by (simp add: sprite_assets_of_cases b64decode_b64encode)
qed

lemma png_not_empty: "png img \<noteq> []"
  by (simp add: png_def png_signature_def)

lemma image_payload_not_empty: "image_payload obj \<noteq> Some []"
  by (auto simp: image_payload_def png_not_empty
      split: read_outcome.splits image_outcome.splits)

lemma process_mesh_failure:
  assumes "type_name obj = ''Mesh''" "\<not> mesh_export_ok obj"
  shows "\<exists>w. printed (process_mesh obj s) = printed s @ [''[WARN] '' @ w]"
proof (cases "mesh_payload obj")
  case None
  with assms(1) obtain w where "process_mesh obj s = warn w s"
    using process_mesh_nopayload by blast
  then show ?thesis
    unfolding warn_simps by (simp only: warn_simps) blast
next
  case (Some bs)
  then obtain dat where r: "read obj = ReadOk dat"
    by (auto simp: mesh_payload_def split: read_outcome.splits)
  have w: "file_write obj \<noteq> Written"
    using assms(2) Some by (simp add: mesh_export_ok_def)
  show ?thesis
    using process_mesh_writefail[OF assms(1) r Some w, of s] store_mesh_fail[OF w]
    by simp
qed

lemma write_raises_keeps_disk:
  assumes "file_write obj = WriteRaises e None"
  shows "disk (process_texture obj s) = disk s" and "disk (process_sprite obj s) = disk s"
proof -
  have x: "disk (export_image label obj dat orig clean s) = disk s" for label dat orig clean
    using assms
    by (cases "image dat") (simp_all add: export_image_def write_file_def)
  show "disk (process_texture obj s) = disk s"
    by (cases "read obj") (simp_all add: process_texture_def x)
  show "disk (process_sprite obj s) = disk s"
    by (cases "read obj") (simp_all add: process_sprite_def x)
qed



section \<open>The manifest and the files on disk\<close>

lemma step_keeps_files_match:
  assumes m: "mesh_data s' = mesh_data s @ new_m"
    and t: "texture_data s' = texture_data s @ new_t"
    and d: "\<And>p. target \<noteq> Some p \<Longrightarrow> disk s' p = disk s p"
    and nm: "\<forall>a \<in> set new_m. target = Some (path_join OUTPUT_GEO (filename a)) \<and>
               (\<exists>bs. b64decode (data a) = Some bs \<and>
                     disk s' (path_join OUTPUT_GEO (filename a)) = Some bs)"
    and nt: "\<forall>a \<in> set new_t. target = Some (path_join OUTPUT_TEX (filename a)) \<and>
               (\<exists>bs. b64decode (data a) = Some bs \<and>
                     disk s' (path_join OUTPUT_TEX (filename a)) = Some bs)"
    and inv: "files_match s (set_option target \<union> L)"
    and disj: "set_option target \<inter> L = {}"
  shows "files_match s' L"
  unfolding files_match_def
proof (intro conjI ballI)
  fix a assume "a \<in> set (mesh_data s')"
  then consider "a \<in> set (mesh_data s)" | "a \<in> set new_m"
    using m by auto
  then show "\<exists>bs. b64decode (data a) = Some bs \<and>
               disk s' (path_join OUTPUT_GEO (filename a)) = Some bs"
  proof cases
    case 1
    with inv have g: "\<exists>bs. b64decode (data a) = Some bs \<and>
               disk s (path_join OUTPUT_GEO (filename a)) = Some bs"
      and n: "path_join OUTPUT_GEO (filename a) \<notin> set_option target"
      by (auto simp: files_match_def)
    from n have "target \<noteq> Some (path_join OUTPUT_GEO (filename a))"
      by auto
    then show ?thesis using g d by simp
  next
    case 2
    then show ?thesis using nm by blast
  qed
next
  fix a assume "a \<in> set (mesh_data s')"
  then consider "a \<in> set (mesh_data s)" | "a \<in> set new_m"
    using m by auto
  then show "path_join OUTPUT_GEO (filename a) \<notin> L"
  proof cases
    case 1
    with inv show ?thesis by (auto simp: files_match_def)
  next
    case 2
    then have "target = Some (path_join OUTPUT_GEO (filename a))"
      using nm by blast
    then show ?thesis using disj by auto
  qed
next
  fix a assume "a \<in> set (texture_data s')"
  then consider "a \<in> set (texture_data s)" | "a \<in> set new_t"
    using t by auto
  then show "\<exists>bs. b64decode (data a) = Some bs \<and>
               disk s' (path_join OUTPUT_TEX (filename a)) = Some bs"
  proof cases
    case 1
    with inv have g: "\<exists>bs. b64decode (data a) = Some bs \<and>
               disk s (path_join OUTPUT_TEX (filename a)) = Some bs"
      and n: "path_join OUTPUT_TEX (filename a) \<notin> set_option target"
      by (auto simp: files_match_def)
    from n have "target \<noteq> Some (path_join OUTPUT_TEX (filename a))"
      by auto
    then show ?thesis using g d by simp
  next
    case 2
    then show ?thesis using nt by blast
  qed
next
  fix a assume "a \<in> set (texture_data s')"
  then consider "a \<in> set (texture_data s)" | "a \<in> set new_t"
    using t by auto
  then show "path_join OUTPUT_TEX (filename a) \<notin> L"
  proof cases
    case 1
    with inv show ?thesis by (auto simp: files_match_def)
  next
    case 2
    then have "target = Some (path_join OUTPUT_TEX (filename a))"
      using nt by blast
    then show ?thesis using disj by auto
  qed
qed

lemma pass_keeps_files_match:
  assumes step: "\<And>obj s L. files_match s (set_option (target obj) \<union> L) \<Longrightarrow>
                   set_option (target obj) \<inter> L = {} \<Longrightarrow> files_match (step obj s) L"
    and "distinct (List.map_filter target objs)"
    and "set (List.map_filter target objs) \<inter> L = {}"
    and "files_match s (set (List.map_filter target objs) \<union> L)"
  shows "files_match (fold step objs s) L"
  using assms(2-)
proof (induction objs arbitrary: s)
  case Nil
  then show ?case by (simp add: map_filter_simps)
next
  case (Cons obj objs)
  let ?L = "set (List.map_filter target objs) \<union> L"
  have sp: "set (List.map_filter target (obj # objs)) =
            set_option (target obj) \<union> set (List.map_filter target objs)"
    by (cases "target obj") (simp_all add: map_filter_simps)
  have dr: "distinct (List.map_filter target objs)"
    using Cons.prems(1) by (cases "target obj") (simp_all add: map_filter_simps)
  have dj: "set_option (target obj) \<inter> ?L = {}"
    using Cons.prems(1,2) by (cases "target obj") (auto simp: map_filter_simps)
  have "files_match s (set_option (target obj) \<union> ?L)"
    using Cons.prems(3) unfolding sp by (simp only: Un_assoc)
  then have i1: "files_match (step obj s) ?L"
    using dj by (rule step)
  have i2: "set (List.map_filter target objs) \<inter> L = {}"
    using Cons.prems(2) sp by auto
  show ?case
    using Cons.IH[OF dr i2 i1] by simp
qed



lemma mesh_assets_of_mem:
  assumes "a \<in> set (mesh_assets_of obj)"
  shows "type_name obj = ''Mesh''" and "mesh_export_ok obj"
proof -
  have "type_name obj = ''Mesh'' \<and> mesh_export_ok obj"
  proof (rule ccontr)
    assume n: "\<not> (type_name obj = ''Mesh'' \<and> mesh_export_ok obj)"
    have "mesh_assets_of obj = []"
      by (subst mesh_assets_of_cases) (rule if_not_P, rule n)
    then show False using assms by simp
  qed
  then show "type_name obj = ''Mesh''" and "mesh_export_ok obj"
    by blast+
qed

lemma texture_assets_of_mem:
  assumes "a \<in> set (texture_assets_of obj)"
  shows "type_name obj = ''Texture2D''" and "image_export_ok obj"
proof -
  have "type_name obj = ''Texture2D'' \<and> image_export_ok obj"
  proof (rule ccontr)
    assume n: "\<not> (type_name obj = ''Texture2D'' \<and> image_export_ok obj)"
    have "texture_assets_of obj = []"
      by (subst texture_assets_of_cases) (rule if_not_P, rule n)
    then show False using assms by simp
  qed
  then show "type_name obj = ''Texture2D''" and "image_export_ok obj"
    by blast+
qed

lemma sprite_assets_of_mem:
  assumes "a \<in> set (sprite_assets_of obj)"
  shows "type_name obj = ''Sprite''" and "image_export_ok obj"
proof -
  have "type_name obj = ''Sprite'' \<and> image_export_ok obj"
  proof (rule ccontr)
    assume n: "\<not> (type_name obj = ''Sprite'' \<and> image_export_ok obj)"
    have "sprite_assets_of obj = []"
      by (subst sprite_assets_of_cases) (rule if_not_P, rule n)
    then show False using assms by simp
  qed
  then show "type_name obj = ''Sprite''" and "image_export_ok obj"
    by blast+
qed

lemma process_mesh_keeps_files_match:
  assumes "files_match s (set_option (mesh_file obj) \<union> L)"
    and "set_option (mesh_file obj) \<inter> L = {}"
  shows "files_match (process_mesh obj s) L"
proof (rule step_keeps_files_match[where new_m = "mesh_assets_of obj" and new_t = "[]"
      and target = "mesh_file obj" and s = s])
  show "mesh_data (process_mesh obj s) = mesh_data s @ mesh_assets_of obj"
    by (rule process_mesh_data)
  show "texture_data (process_mesh obj s) = texture_data s @ []"
    by (simp add: process_mesh_frame)
  show "disk (process_mesh obj s) p = disk s p" if "mesh_file obj \<noteq> Some p" for p
    using that by (rule process_mesh_disk)
  show "\<forall>a \<in> set (mesh_assets_of obj).
          mesh_file obj = Some (path_join OUTPUT_GEO (filename a)) \<and>
          (\<exists>bs. b64decode (data a) = Some bs \<and>
                disk (process_mesh obj s) (path_join OUTPUT_GEO (filename a)) = Some bs)"
  proof (intro ballI)
    fix a assume a: "a \<in> set (mesh_assets_of obj)"
    then have ty: "type_name obj = ''Mesh''" and ok: "mesh_export_ok obj"
      by (rule mesh_assets_of_mem)+
    from ok obtain bs where pl: "mesh_payload obj = Some bs" and w: "file_write obj = Written"
      by (auto simp: mesh_export_ok_def)
    then obtain dat where r: "read obj = ReadOk dat"
      by (auto simp: mesh_payload_def split: read_outcome.splits)
    have f: "filename a = mesh_name_clean (name_attr dat) (path_id obj) @ ''.obj''"
      and da: "data a = b64encode bs"
      using a ty ok r pl by (simp_all add: mesh_assets_of_cases)
    have mf: "mesh_file obj = Some (path_join OUTPUT_GEO (filename a))"
      using ty pl r f by (simp add: mesh_file_def)
    have dk: "disk (process_mesh obj s) (path_join OUTPUT_GEO (filename a)) = Some bs"
      using process_mesh_ok[OF ty r pl w, of s] f by simp
    show "mesh_file obj = Some (path_join OUTPUT_GEO (filename a)) \<and>
          (\<exists>bs. b64decode (data a) = Some bs \<and>
                disk (process_mesh obj s) (path_join OUTPUT_GEO (filename a)) = Some bs)"
      using mf dk da by (simp add: b64decode_b64encode)
  qed
  show "\<forall>a \<in> set []. mesh_file obj = Some (path_join OUTPUT_TEX (filename a)) \<and>
          (\<exists>bs. b64decode (data a) = Some bs \<and>
                disk (process_mesh obj s) (path_join OUTPUT_TEX (filename a)) = Some bs)"
    by simp
  show "files_match s (set_option (mesh_file obj) \<union> L)"
    by (rule assms(1))
  show "set_option (mesh_file obj) \<inter> L = {}"
    by (rule assms(2))
qed

lemma process_texture_keeps_files_match:
  assumes "files_match s (set_option (texture_file obj) \<union> L)"
    and "set_option (texture_file obj) \<inter> L = {}"
  shows "files_match (process_texture obj s) L"
proof (rule step_keeps_files_match[where new_m = "[]" and new_t = "texture_assets_of obj"
      and target = "texture_file obj" and s = s])
  show "mesh_data (process_texture obj s) = mesh_data s @ []"
    by (simp add: process_texture_frame)
  show "texture_data (process_texture obj s) = texture_data s @ texture_assets_of obj"
    by (rule process_texture_data)
  show "disk (process_texture obj s) p = disk s p" if "texture_file obj \<noteq> Some p" for p
    using that by (rule process_texture_disk)
  show "\<forall>a \<in> set (texture_assets_of obj).
          texture_file obj = Some (path_join OUTPUT_TEX (filename a)) \<and>
          (\<exists>bs. b64decode (data a) = Some bs \<and>
                disk (process_texture obj s) (path_join OUTPUT_TEX (filename a)) = Some bs)"
  proof (intro ballI)
    fix a assume a: "a \<in> set (texture_assets_of obj)"
    then have ty: "type_name obj = ''Texture2D''" and ok: "image_export_ok obj"
      by (rule texture_assets_of_mem)+
    from process_texture_success(2)[OF ty ok, of s] obtain path bs where
      tf: "texture_file obj = Some path" and pl: "image_payload obj = Some bs"
      and d: "disk (process_texture obj s) = (disk s)(path \<mapsto> bs)"
      by blast
    from pl obtain dat where r: "read obj = ReadOk dat"
      by (auto simp: image_payload_def split: read_outcome.splits)
    have f: "filename a = tex_name_clean (name_attr dat) (path_id obj) @ ''.png''"
      and da: "data a = b64encode bs"
      using a ty ok r pl by (simp_all add: texture_assets_of_cases)
    have pa: "path = path_join OUTPUT_TEX (filename a)"
      using tf ty r pl f by (simp add: texture_file_def)
    show "texture_file obj = Some (path_join OUTPUT_TEX (filename a)) \<and>
          (\<exists>bs. b64decode (data a) = Some bs \<and>
                disk (process_texture obj s) (path_join OUTPUT_TEX (filename a)) = Some bs)"
      using tf pa d da by (simp add: b64decode_b64encode)
  qed
  show "\<forall>a \<in> set []. texture_file obj = Some (path_join OUTPUT_GEO (filename a)) \<and>
          (\<exists>bs. b64decode (data a) = Some bs \<and>
                disk (process_texture obj s) (path_join OUTPUT_GEO (filename a)) = Some bs)"
    by simp
  show "files_match s (set_option (texture_file obj) \<union> L)"
    by (rule assms(1))
  show "set_option (texture_file obj) \<inter> L = {}"
    by (rule assms(2))
qed

lemma process_sprite_keeps_files_match:
  assumes "files_match s (set_option (sprite_file obj) \<union> L)"
    and "set_option (sprite_file obj) \<inter> L = {}"
  shows "files_match (process_sprite obj s) L"
proof (rule step_keeps_files_match[where new_m = "[]" and new_t = "sprite_assets_of obj"
      and target = "sprite_file obj" and s = s])
  show "mesh_data (process_sprite obj s) = mesh_data s @ []"
    by (simp add: process_sprite_frame)
  show "texture_data (process_sprite obj s) = texture_data s @ sprite_assets_of obj"
    by (rule process_sprite_data)
  show "disk (process_sprite obj s) p = disk s p" if "sprite_file obj \<noteq> Some p" for p
    using that by (rule process_sprite_disk)
  show "\<forall>a \<in> set (sprite_assets_of obj).
          sprite_file obj = Some (path_join OUTPUT_TEX (filename a)) \<and>
          (\<exists>bs. b64decode (data a) = Some bs \<and>
                disk (process_sprite obj s) (path_join OUTPUT_TEX (filename a)) = Some bs)"
  proof (intro ballI)
    fix a assume a: "a \<in> set (sprite_assets_of obj)"
    then have ty: "type_name obj = ''Sprite''" and ok: "image_export_ok obj"
      by (rule sprite_assets_of_mem)+
    from process_sprite_success(2)[OF ty ok, of s] obtain path bs where
      tf: "sprite_file obj = Some path" and pl: "image_payload obj = Some bs"
      and d: "disk (process_sprite obj s) = (disk s)(path \<mapsto> bs)"
      by blast
    from pl obtain dat where r: "read obj = ReadOk dat"
      by (auto simp: image_payload_def split: read_outcome.splits)
    have f: "filename a = sprite_name_clean (name_attr dat) (path_id obj) @ ''.png''"
      and da: "data a = b64encode bs"
      using a ty ok r pl by (simp_all add: sprite_assets_of_cases)
    have pa: "path = path_join OUTPUT_TEX (filename a)"
      using tf ty r pl f by (simp add: sprite_file_def)
    show "sprite_file obj = Some (path_join OUTPUT_TEX (filename a)) \<and>
          (\<exists>bs. b64decode (data a) = Some bs \<and>
                disk (process_sprite obj s) (path_join OUTPUT_TEX (filename a)) = Some bs)"
      using tf pa d da by (simp add: b64decode_b64encode)
  qed
  show "\<forall>a \<in> set []. sprite_file obj = Some (path_join OUTPUT_GEO (filename a)) \<and>
          (\<exists>bs. b64decode (data a) = Some bs \<and>
                disk (process_sprite obj s) (path_join OUTPUT_GEO (filename a)) = Some bs)"
    by simp
  show "files_match s (set_option (sprite_file obj) \<union> L)"
    by (rule assms(1))
  show "set_option (sprite_file obj) \<inter> L = {}"
    by (rule assms(2))
qed

lemma run_extraction_files_match:
  assumes "distinct (write_attempts objs)"
  shows "files_match (run_extraction objs) {}"
proof -
  let ?M = "List.map_filter mesh_file objs"
  let ?T = "List.map_filter texture_file objs"
  let ?S = "List.map_filter sprite_file objs"
  have d: "distinct ?M" "distinct ?T" "distinct ?S"
    "set ?M \<inter> (set ?T \<union> set ?S) = {}" "set ?T \<inter> set ?S = {}"
    using assms unfolding write_attempts_def by auto
  have i0: "files_match initial_state (set ?M \<union> (set ?T \<union> set ?S))"
    by (simp add: files_match_def initial_state_def)
  have i1: "files_match (extract_meshes objs initial_state) (set ?T \<union> set ?S)"
    unfolding extract_meshes_def
    using process_mesh_keeps_files_match d(1) d(4) i0
    by (rule pass_keeps_files_match)
  have i1a: "files_match (extract_meshes objs initial_state) (set ?T \<union> (set ?S \<union> {}))"
    using i1 by simp
  have d5: "set ?T \<inter> (set ?S \<union> {}) = {}"
    using d(5) by simp
  have i2: "files_match (extract_textures objs (extract_meshes objs initial_state)) (set ?S \<union> {})"
    unfolding extract_textures_def
    using process_texture_keeps_files_match d(2) d5 i1a
    by (rule pass_keeps_files_match)
  have e: "set ?S \<inter> {} = {}" by simp
  show ?thesis
    unfolding run_extraction_def extract_sprites_def
    using process_sprite_keeps_files_match d(3) e i2
    by (rule pass_keeps_files_match)
qed


lemma mesh_assets_of_ok:
  assumes "type_name obj = ''Mesh''" "read obj = ReadOk dat" "mesh_payload obj = Some bs"
    "file_write obj = Written"
  shows "mesh_assets_of obj =
      [\<lparr>name = mesh_name_clean (name_attr dat) (path_id obj),
        filename = mesh_name_clean (name_attr dat) (path_id obj) @ ''.obj'',
        data = b64encode bs,
        original_name = mesh_name (name_attr dat) (path_id obj)\<rparr>]"
  using assms by (simp add: mesh_assets_of_cases mesh_export_ok_def del: b64encode.simps)

lemma mesh_asset_data:
  assumes "a \<in> set (mesh_assets_of obj)"
  shows "\<exists>bs. data a = b64encode bs"
proof -
  have "type_name obj = ''Mesh'' \<and> mesh_export_ok obj"
    using mesh_assets_of_mem[OF assms] by simp
  then show ?thesis
    using assms by (subst (asm) mesh_assets_of_cases) (auto split: read_outcome.splits)
qed

lemma texture_asset_data:
  assumes "a \<in> set (texture_assets_of obj)"
  shows "\<exists>bs. data a = b64encode bs"
proof -
  have "type_name obj = ''Texture2D'' \<and> image_export_ok obj"
    using texture_assets_of_mem[OF assms] by simp
  then show ?thesis
    using assms by (subst (asm) texture_assets_of_cases) (auto split: read_outcome.splits)
qed

lemma sprite_asset_data:
  assumes "a \<in> set (sprite_assets_of obj)"
  shows "\<exists>bs. data a = b64encode bs"
proof -
  have "type_name obj = ''Sprite'' \<and> image_export_ok obj"
    using sprite_assets_of_mem[OF assms] by simp
  then show ?thesis
    using assms by (subst (asm) sprite_assets_of_cases) (auto split: read_outcome.splits)
qed

lemma extracted_data_is_base64:
  "a \<in> set (mesh_data (run_extraction objs)) \<Longrightarrow> \<exists>bs. b64decode (data a) = Some bs"
  "a \<in> set (texture_data (run_extraction objs)) \<Longrightarrow> \<exists>bs. b64decode (data a) = Some bs"
proof -
  assume "a \<in> set (mesh_data (run_extraction objs))"
  then obtain obj where "a \<in> set (mesh_assets_of obj)"
    by (auto simp: run_extraction_data)
  then obtain bs where "data a = b64encode bs"
    using mesh_asset_data by blast
  then show "\<exists>bs. b64decode (data a) = Some bs"
    by (simp add: b64decode_b64encode del: b64encode.simps)
next
  assume "a \<in> set (texture_data (run_extraction objs))"
  then obtain obj where "a \<in> set (texture_assets_of obj) \<or> a \<in> set (sprite_assets_of obj)"
    by (auto simp: run_extraction_data)
  then obtain bs where "data a = b64encode bs"
    using texture_asset_data sprite_asset_data by blast
  then show "\<exists>bs. b64decode (data a) = Some bs"
    by (simp add: b64decode_b64encode del: b64encode.simps)
qed

text \<open>
  Claim C6, as stated, fails when two objects get the same file name: the second
  write replaces the file, and both records stay in the manifest. Below, two meshes
  named \<open>A\<close> export OBJ texts of 12 and of 20 bytes; the first entry \<open>A.obj\<close> of the
  manifest decodes to 12 bytes, and the file \<open>A.obj\<close> holds 20.
\<close>

theorem manifest_entry_can_differ_from_file:
  "map AssetName (Geometry (BinaryAssets (built_preset
      [\<lparr>type_name = ''Mesh'', path_id = 1,
        read = ReadOk \<lparr>name_attr = Some ''A'',
                       export = ExportStr ''g A\<newline>v 0 0 0\<newline>'',
                       image = ImageRaises ''no image''\<rparr>,
        file_write = Written\<rparr>,
       \<lparr>type_name = ''Mesh'', path_id = 2,
        read = ReadOk \<lparr>name_attr = Some ''A'',
                       export = ExportStr ''g A\<newline>v 0 0 0\<newline>v 1 0 0\<newline>'',
                       image = ImageRaises ''no image''\<rparr>,
        file_write = Written\<rparr>]))) = [''A.obj'', ''A.obj''] \<and>
   map (\<lambda>e. map_option length (b64decode (Data e))) (Geometry (BinaryAssets (built_preset
      [\<lparr>type_name = ''Mesh'', path_id = 1,
        read = ReadOk \<lparr>name_attr = Some ''A'',
                       export = ExportStr ''g A\<newline>v 0 0 0\<newline>'',
                       image = ImageRaises ''no image''\<rparr>,
        file_write = Written\<rparr>,
       \<lparr>type_name = ''Mesh'', path_id = 2,
        read = ReadOk \<lparr>name_attr = Some ''A'',
                       export = ExportStr ''g A\<newline>v 0 0 0\<newline>v 1 0 0\<newline>'',
                       image = ImageRaises ''no image''\<rparr>,
        file_write = Written\<rparr>]))) = [Some 12, Some 20] \<and>
   map_option length (disk (run_extraction
      [\<lparr>type_name = ''Mesh'', path_id = 1,
        read = ReadOk \<lparr>name_attr = Some ''A'',
                       export = ExportStr ''g A\<newline>v 0 0 0\<newline>'',
                       image = ImageRaises ''no image''\<rparr>,
        file_write = Written\<rparr>,
       \<lparr>type_name = ''Mesh'', path_id = 2,
        read = ReadOk \<lparr>name_attr = Some ''A'',
                       export = ExportStr ''g A\<newline>v 0 0 0\<newline>v 1 0 0\<newline>'',
                       image = ImageRaises ''no image''\<rparr>,
        file_write = Written\<rparr>]) ''output/CustomGeometry/A.obj'') = Some 20"
proof -
  let ?t1 = "''g A\<newline>v 0 0 0\<newline>''"
  let ?t2 = "''g A\<newline>v 0 0 0\<newline>v 1 0 0\<newline>''"
  let ?d1 = "\<lparr>name_attr = Some ''A'', export = ExportStr ?t1,
                       image = ImageRaises ''no image''\<rparr>"
  let ?d2 = "\<lparr>name_attr = Some ''A'', export = ExportStr ?t2,
                       image = ImageRaises ''no image''\<rparr>"
  let ?m1 = "\<lparr>type_name = ''Mesh'', path_id = 1, read = ReadOk ?d1, file_write = Written\<rparr>"
  let ?m2 = "\<lparr>type_name = ''Mesh'', path_id = 2, read = ReadOk ?d2, file_write = Written\<rparr>"
  have n: "mesh_name_clean (Some ''A'') 1 = ''A''" "mesh_name_clean (Some ''A'') 2 = ''A''"
    by code_simp+
  have l: "length (utf8_encode ?t1) = 12" "length (utf8_encode ?t2) = 20"
    by code_simp+
  have p1: "mesh_payload ?m1 = Some (utf8_encode ?t1)"
    and p2: "mesh_payload ?m2 = Some (utf8_encode ?t2)"
    by (simp_all add: mesh_payload_def)
  have ty: "type_name ?m1 = ''Mesh''" "type_name ?m2 = ''Mesh''"
    by simp_all
  have r: "read ?m1 = ReadOk ?d1" "read ?m2 = ReadOk ?d2"
    by simp_all
  have w: "file_write ?m1 = Written" "file_write ?m2 = Written"
    by simp_all
  have a1: "mesh_assets_of ?m1 =
      [\<lparr>name = ''A'', filename = ''A.obj'', data = b64encode (utf8_encode ?t1),
        original_name = mesh_name (Some ''A'') 1\<rparr>]"
    using mesh_assets_of_ok[OF ty(1) r(1) p1 w(1)] by (simp add: n del: b64encode.simps)
  have a2: "mesh_assets_of ?m2 =
      [\<lparr>name = ''A'', filename = ''A.obj'', data = b64encode (utf8_encode ?t2),
        original_name = mesh_name (Some ''A'') 2\<rparr>]"
    using mesh_assets_of_ok[OF ty(2) r(2) p2 w(2)] by (simp add: n del: b64encode.simps)
  have g: "Geometry (BinaryAssets (built_preset [?m1, ?m2])) =
      [\<lparr>AssetName = ''A.obj'', Data = b64encode (utf8_encode ?t1)\<rparr>,
       \<lparr>AssetName = ''A.obj'', Data = b64encode (utf8_encode ?t2)\<rparr>]"
    by (simp add: built_preset_def generate_preset_Geometry run_extraction_data a1 a2
        del: b64encode.simps)
  have t: "texture_file ?m1 = None" "texture_file ?m2 = None"
          "sprite_file ?m1 = None" "sprite_file ?m2 = None"
    by (simp_all add: texture_file_def sprite_file_def)
  have dm: "disk (extract_meshes [?m1, ?m2] initial_state) ''output/CustomGeometry/A.obj'' =
      Some (utf8_encode ?t2)"
    unfolding extract_meshes_def
    by (simp add: process_mesh_ok[OF ty(1) r(1) p1 w(1)] process_mesh_ok[OF ty(2) r(2) p2 w(2)]
        n path_join_def OUTPUT_GEO_def)
  have dt: "disk (extract_textures [?m1, ?m2] s) p = disk s p" for s p
    unfolding extract_textures_def by (simp add: process_texture_disk t)
  have ds: "disk (extract_sprites [?m1, ?m2] s) p = disk s p" for s p
    unfolding extract_sprites_def by (simp add: process_sprite_disk t)
  have d: "disk (run_extraction [?m1, ?m2]) ''output/CustomGeometry/A.obj'' =
      Some (utf8_encode ?t2)"
    by (simp add: run_extraction_def ds dt dm)
  show ?thesis
    unfolding g d by (simp add: b64decode_b64encode l del: b64encode.simps)
qed

text \<open>
  Claim C6, amended. Every \<open>Data\<close> field of the manifest is valid base64. When no two
  objects of the bundle write to the same path, each entry decodes to exactly the bytes
  of the file of its name in the folder of its kind, so to as many bytes as the file
  has. When several objects share a path, the file holds what the last of them wrote.
\<close>

theorem manifest_data_matches_files:
  "(\<forall>e \<in> set (Geometry (BinaryAssets (built_preset objs))) \<union>
          set (Textures (BinaryAssets (built_preset objs))).
      \<exists>bs. b64decode (Data e) = Some bs) \<and>
   (distinct (write_attempts objs) \<longrightarrow>
      (\<forall>e \<in> set (Geometry (BinaryAssets (built_preset objs))).
         \<exists>bs. b64decode (Data e) = Some bs \<and>
              disk (run_extraction objs) (path_join OUTPUT_GEO (AssetName e)) = Some bs \<and>
              length bs = length (the (disk (run_extraction objs)
                                        (path_join OUTPUT_GEO (AssetName e))))) \<and>
      (\<forall>e \<in> set (Textures (BinaryAssets (built_preset objs))).
         \<exists>bs. b64decode (Data e) = Some bs \<and>
              disk (run_extraction objs) (path_join OUTPUT_TEX (AssetName e)) = Some bs \<and>
              length bs = length (the (disk (run_extraction objs)
                                        (path_join OUTPUT_TEX (AssetName e))))))"
proof (intro conjI impI ballI)
  fix e
  assume "e \<in> set (Geometry (BinaryAssets (built_preset objs))) \<union>
              set (Textures (BinaryAssets (built_preset objs)))"
  then obtain a where "Data e = data a"
    and "a \<in> set (mesh_data (run_extraction objs)) \<or> a \<in> set (texture_data (run_extraction objs))"
    by (auto simp: built_preset_def generate_preset_Geometry generate_preset_Textures)
  then show "\<exists>bs. b64decode (Data e) = Some bs"
    using extracted_data_is_base64[of a objs] by auto
next
  fix e
  assume d: "distinct (write_attempts objs)"
    and e: "e \<in> set (Geometry (BinaryAssets (built_preset objs)))"
  from e obtain a where a: "a \<in> set (mesh_data (run_extraction objs))"
    "Data e = data a" "AssetName e = filename a"
    by (auto simp: built_preset_def generate_preset_Geometry)
  from run_extraction_files_match[OF d] a(1)
  obtain bs where "b64decode (data a) = Some bs"
    "disk (run_extraction objs) (path_join OUTPUT_GEO (filename a)) = Some bs"
    unfolding files_match_def by blast
  then show "\<exists>bs. b64decode (Data e) = Some bs \<and>
              disk (run_extraction objs) (path_join OUTPUT_GEO (AssetName e)) = Some bs \<and>
              length bs = length (the (disk (run_extraction objs)
                                        (path_join OUTPUT_GEO (AssetName e))))"
    by (simp add: a(2,3))
next
  fix e
  assume d: "distinct (write_attempts objs)"
    and e: "e \<in> set (Textures (BinaryAssets (built_preset objs)))"
  from e obtain a where a: "a \<in> set (texture_data (run_extraction objs))"
    "Data e = data a" "AssetName e = filename a"
    by (auto simp: built_preset_def generate_preset_Textures)
  from run_extraction_files_match[OF d] a(1)
  obtain bs where "b64decode (data a) = Some bs"
    "disk (run_extraction objs) (path_join OUTPUT_TEX (filename a)) = Some bs"
    unfolding files_match_def by blast
  then show "\<exists>bs. b64decode (Data e) = Some bs \<and>
              disk (run_extraction objs) (path_join OUTPUT_TEX (AssetName e)) = Some bs \<and>
              length bs = length (the (disk (run_extraction objs)
                                        (path_join OUTPUT_TEX (AssetName e))))"
    by (simp add: a(2,3))
qed

theorem manifest_data_matches_files_witness:
  "distinct (write_attempts
      [\<lparr>type_name = ''Mesh'', path_id = 1,
        read = ReadOk \<lparr>name_attr = Some ''A'',
                       export = ExportStr ''g A\<newline>v 0 0 0\<newline>'',
                       image = ImageRaises ''no image''\<rparr>,
        file_write = Written\<rparr>]) \<and>
   map AssetName (Geometry (BinaryAssets (built_preset
      [\<lparr>type_name = ''Mesh'', path_id = 1,
        read = ReadOk \<lparr>name_attr = Some ''A'',
                       export = ExportStr ''g A\<newline>v 0 0 0\<newline>'',
                       image = ImageRaises ''no image''\<rparr>,
        file_write = Written\<rparr>]))) = [''A.obj''] \<and>
   (\<exists>bs. map (\<lambda>e. b64decode (Data e)) (Geometry (BinaryAssets (built_preset
      [\<lparr>type_name = ''Mesh'', path_id = 1,
        read = ReadOk \<lparr>name_attr = Some ''A'',
                       export = ExportStr ''g A\<newline>v 0 0 0\<newline>'',
                       image = ImageRaises ''no image''\<rparr>,
        file_write = Written\<rparr>]))) = [Some bs] \<and>
      disk (run_extraction
      [\<lparr>type_name = ''Mesh'', path_id = 1,
        read = ReadOk \<lparr>name_attr = Some ''A'',
                       export = ExportStr ''g A\<newline>v 0 0 0\<newline>'',
                       image = ImageRaises ''no image''\<rparr>,
        file_write = Written\<rparr>]) (path_join OUTPUT_GEO ''A.obj'') = Some bs)"
proof -
  let ?t1 = "''g A\<newline>v 0 0 0\<newline>''"
  let ?d1 = "\<lparr>name_attr = Some ''A'', export = ExportStr ?t1,
                       image = ImageRaises ''no image''\<rparr>"
  let ?m1 = "\<lparr>type_name = ''Mesh'', path_id = 1, read = ReadOk ?d1, file_write = Written\<rparr>"
  have n: "mesh_name_clean (Some ''A'') 1 = ''A''"
    by code_simp
  have p1: "mesh_payload ?m1 = Some (utf8_encode ?t1)"
    by (simp add: mesh_payload_def)
  have ty: "type_name ?m1 = ''Mesh''" and r: "read ?m1 = ReadOk ?d1"
    and w: "file_write ?m1 = Written"
    by simp_all
  have a1: "mesh_assets_of ?m1 =
      [\<lparr>name = ''A'', filename = ''A.obj'', data = b64encode (utf8_encode ?t1),
        original_name = mesh_name (Some ''A'') 1\<rparr>]"
    using mesh_assets_of_ok[OF ty r p1 w] by (simp add: n del: b64encode.simps)
  have g: "Geometry (BinaryAssets (built_preset [?m1])) =
      [\<lparr>AssetName = ''A.obj'', Data = b64encode (utf8_encode ?t1)\<rparr>]"
    by (simp add: built_preset_def generate_preset_Geometry run_extraction_data a1
        del: b64encode.simps)
  have f: "mesh_file ?m1 = Some (path_join OUTPUT_GEO ''A.obj'')"
    "texture_file ?m1 = None" "sprite_file ?m1 = None"
    by (simp_all add: mesh_file_def texture_file_def sprite_file_def p1 n)
  have d: "distinct (write_attempts [?m1])"
    by (simp add: write_attempts_def List.map_filter_simps f)
  have m: "\<lparr>AssetName = ''A.obj'', Data = b64encode (utf8_encode ?t1)\<rparr>
      \<in> set (Geometry (BinaryAssets (built_preset [?m1])))"
    unfolding g by simp
  from manifest_data_matches_files[of "[?m1]"] d m
  obtain bs where
    "b64decode (Data \<lparr>AssetName = ''A.obj'', Data = b64encode (utf8_encode ?t1)\<rparr>) = Some bs"
    "disk (run_extraction [?m1])
       (path_join OUTPUT_GEO (AssetName \<lparr>AssetName = ''A.obj'',
          Data = b64encode (utf8_encode ?t1)\<rparr>)) = Some bs"
    by blast
  then have "map (\<lambda>e. b64decode (Data e)) (Geometry (BinaryAssets (built_preset [?m1]))) = [Some bs]
      \<and> disk (run_extraction [?m1]) (path_join OUTPUT_GEO ''A.obj'') = Some bs"
    unfolding g by simp
  then show ?thesis
    using d g by auto
qed

end
